theory Spec2Isabelle
  imports Complex_Main "HOL-Library.Stream"
begin

section \<open>Python values used by the services\<close>

subsection \<open>Dictionaries\<close>

text \<open>
  A Python \<^verbatim>\<open>dict\<close> is an association list in insertion order. The keys of a
  dictionary are pairwise different (\<open>wf_dict\<close>); every operation below keeps that.
  \<^item> \<open>dict_contains d k\<close> is \<^verbatim>\<open>k in d\<close>;
  \<^item> \<open>dict_get d k\<close> is \<^verbatim>\<open>d[k]\<close>, with \<open>None\<close> where Python raises KeyError;
  \<^item> \<open>dict_set d k v\<close> is \<^verbatim>\<open>d[k] = v\<close>: an existing key keeps its position, a
    new key goes to the end;
  \<^item> \<open>dict_del d k\<close> is \<^verbatim>\<open>del d[k]\<close> for a key that is present;
  \<^item> \<open>dict_len d\<close> is \<^verbatim>\<open>len(d)\<close>, \<open>dict_values d\<close> is \<^verbatim>\<open>list(d.values())\<close>.
\<close>

definition wf_dict :: "('k \<times> 'v) list \<Rightarrow> bool" where
  "wf_dict d = distinct (map fst d)"

primrec dict_contains :: "('k \<times> 'v) list \<Rightarrow> 'k \<Rightarrow> bool" where
  "dict_contains [] k = False"
| "dict_contains (p # ps) k = (fst p = k \<or> dict_contains ps k)"

primrec dict_get :: "('k \<times> 'v) list \<Rightarrow> 'k \<Rightarrow> 'v option" where
  "dict_get [] k = None"
| "dict_get (p # ps) k = (if fst p = k then Some (snd p) else dict_get ps k)"

primrec dict_set :: "('k \<times> 'v) list \<Rightarrow> 'k \<Rightarrow> 'v \<Rightarrow> ('k \<times> 'v) list" where
  "dict_set [] k v = [(k, v)]"
| "dict_set (p # ps) k v = (if fst p = k then (k, v) # ps else p # dict_set ps k v)"

primrec dict_del :: "('k \<times> 'v) list \<Rightarrow> 'k \<Rightarrow> ('k \<times> 'v) list" where
  "dict_del [] k = []"
| "dict_del (p # ps) k = (if fst p = k then dict_del ps k else p # dict_del ps k)"

definition dict_len :: "('k \<times> 'v) list \<Rightarrow> nat" where
  "dict_len d = length d"

definition dict_keys :: "('k \<times> 'v) list \<Rightarrow> 'k list" where
  "dict_keys d = map fst d"

definition dict_values :: "('k \<times> 'v) list \<Rightarrow> 'v list" where
  "dict_values d = map snd d"

subsection \<open>JSON values\<close>

text \<open>
  The values a request body or a response carries. A float is kept as the exact value
  of the finite double.
\<close>

datatype json =
    JNull
  | JBool bool
  | JInt int
  | JFloat rat
  | JStr string
  | JList "json list"
  | JObj "(string \<times> json) list"

text \<open>An \<^verbatim>\<open>Optional[str]\<close> field as JSON: \<^verbatim>\<open>None\<close> is \<open>null\<close>.\<close>

definition opt_str :: "string option \<Rightarrow> json" where
  "opt_str s = (case s of None \<Rightarrow> JNull | Some t \<Rightarrow> JStr t)"

subsection \<open>Formatting numbers and timestamps\<close>

text \<open>
  \<open>str_nat n\<close> is Python's \<^verbatim>\<open>str(n)\<close> for \<open>n \<ge> 0\<close>; \<open>zpad w n\<close> is the format
  \<^verbatim>\<open>f"{n:0wd}"\<close>: the decimal digits, padded with zeros on the left to at least \<open>w\<close>
  characters (\<^verbatim>\<open>:03d\<close> is \<open>zpad 3\<close>).
\<close>

definition digit_char :: "nat \<Rightarrow> char" where
  "digit_char d = ''0123456789'' ! d"

fun str_nat :: "nat \<Rightarrow> string" where
  "str_nat n = (if n < 10 then [digit_char n] else str_nat (n div 10) @ [digit_char (n mod 10)])"

declare str_nat.simps [simp del]

definition zpad :: "nat \<Rightarrow> nat \<Rightarrow> string" where
  "zpad w n = (let s = str_nat n in replicate (w - length s) (CHR ''0'') @ s)"

text \<open>Reading a decimal string back, to state what the formatting means.\<close>

definition digit_val :: "char \<Rightarrow> nat" where
  "digit_val c = of_char c - 48"

definition is_digit :: "char \<Rightarrow> bool" where
  "is_digit c = (48 \<le> (of_char c :: nat) \<and> (of_char c :: nat) \<le> 57)"

definition dec_val :: "string \<Rightarrow> nat" where
  "dec_val s = foldl (\<lambda>a c. 10 * a + digit_val c) 0 s"

text \<open>
  A reading of the clock: what \<^verbatim>\<open>datetime.now()\<close> returns (a naive local time), and
  \<^verbatim>\<open>.isoformat()\<close> of it: \<^verbatim>\<open>YYYY-MM-DDTHH:MM:SS\<close>, followed by \<^verbatim>\<open>.ffffff\<close> when the
  microsecond is not zero.
\<close>

record datetime =
  year :: nat
  month :: nat
  day :: nat
  hour :: nat
  minute :: nat
  second :: nat
  microsecond :: nat

definition isoformat :: "datetime \<Rightarrow> string" where
  "isoformat t =
     zpad 4 (year t) @ ''-'' @ zpad 2 (month t) @ ''-'' @ zpad 2 (day t) @ ''T'' @
     zpad 2 (hour t) @ '':'' @ zpad 2 (minute t) @ '':'' @ zpad 2 (second t) @
     (if microsecond t = 0 then [] else ''.'' @ zpad 6 (microsecond t))"

section \<open>The REST service (taskflow-api/src/main.py)\<close>

subsection \<open>Response and data models\<close>

text \<open>
  \<^verbatim>\<open>ApiResponse\<close>: the envelope. \<open>data\<close> and \<open>message\<close> are optional; \<open>version\<close> has
  the default \<^verbatim>\<open>"1.0.0"\<close>, which no handler overrides.
\<close>

record ApiResponse =
  success :: bool
  data :: "json option"
  message :: "string option"
  timestamp :: string
  version :: string

text \<open>
  \<^verbatim>\<open>HTTPException(status_code=..., detail=...)\<close>: what a handler raises. The detail is
  the dictionary the handler builds.
\<close>

record HTTPException =
  status_code :: nat
  detail :: "(string \<times> json) list"

text \<open>
  What a handler can raise: an \<^verbatim>\<open>HTTPException\<close>, or the \<^verbatim>\<open>KeyError\<close> of a
  subscript \<^verbatim>\<open>d[k]\<close> on a missing key.
\<close>

datatype error = HTTPError HTTPException | KeyError string

record Task =
  task_id :: string
  task_title :: string
  task_description :: string
  task_status :: string
  task_created_at :: string
  task_user_story :: "string option"

record CreateTaskRequest =
  req_title :: string
  req_description :: string
  req_user_story :: "string option"

record UserStory =
  story_id :: string
  as_a :: string
  i_want :: string
  so_that :: string
  acceptance_criteria :: "string list"
  priority :: string

text \<open>\<^verbatim>\<open>.dict()\<close> of the two models: the fields in declaration order.\<close>

definition Task_dict :: "Task \<Rightarrow> (string \<times> json) list" where
  "Task_dict t =
     [(''id'', JStr (task_id t)),
      (''title'', JStr (task_title t)),
      (''description'', JStr (task_description t)),
      (''status'', JStr (task_status t)),
      (''created_at'', JStr (task_created_at t)),
      (''user_story'', opt_str (task_user_story t))]"

definition UserStory_dict :: "UserStory \<Rightarrow> (string \<times> json) list" where
  "UserStory_dict s =
     [(''id'', JStr (story_id s)),
      (''as_a'', JStr (as_a s)),
      (''i_want'', JStr (i_want s)),
      (''so_that'', JStr (so_that s)),
      (''acceptance_criteria'', JList (map JStr (acceptance_criteria s))),
      (''priority'', JStr (priority s))]"

text \<open>A store maps a resource ID to the record's dictionary.\<close>

type_synonym store = "(string \<times> (string \<times> json) list) list"

text \<open>The two stores as the module creates them.\<close>

definition tasks_db :: store where
  "tasks_db =
     [(''task_001'',
        [(''id'', JStr ''task_001''),
         (''title'', JStr ''Learn FastAPI''),
         (''description'', JStr ''Build your first API with FastAPI''),
         (''status'', JStr ''in_progress''),
         (''created_at'', JStr ''2024-01-15T10:00:00Z''),
         (''user_story'', JStr ''As a developer, I want to learn FastAPI so that I can build modern APIs quickly'')]),
      (''task_002'',
        [(''id'', JStr ''task_002''),
         (''title'', JStr ''Understand REST''),
         (''description'', JStr ''Learn REST principles and HTTP methods''),
         (''status'', JStr ''completed''),
         (''created_at'', JStr ''2024-01-14T09:00:00Z''),
         (''user_story'', JStr ''As a developer, I want to understand REST principles so that I can design better APIs'')])]"

definition user_stories_db :: store where
  "user_stories_db =
     [(''story_001'',
        [(''id'', JStr ''story_001''),
         (''as_a'', JStr ''project manager''),
         (''i_want'', JStr ''to see all tasks for my team''),
         (''so_that'', JStr ''I can track progress and identify blockers''),
         (''acceptance_criteria'',
            JList [JStr ''Can view all tasks in a project'',
                   JStr ''Can filter by status'',
                   JStr ''Can see task assignments'']),
         (''priority'', JStr ''high'')]),
      (''story_002'',
        [(''id'', JStr ''story_002''),
         (''as_a'', JStr ''developer''),
         (''i_want'', JStr ''to update task status''),
         (''so_that'', JStr ''I can keep the team informed of my progress''),
         (''acceptance_criteria'',
            JList [JStr ''Can change status to in_progress'',
                   JStr ''Can mark tasks as completed'',
                   JStr ''Can add comments to tasks'']),
         (''priority'', JStr ''medium'')])]"

subsection \<open>Building responses\<close>

text \<open>
  \<open>api_response d m now\<close> is \<^verbatim>\<open>ApiResponse(success=True, data=d, message=m,
  timestamp=now.isoformat())\<close>, the only way the handlers build an envelope.
  \<open>error_detail code msg now\<close> is the dictionary every \<^verbatim>\<open>HTTPException\<close> of the
  module carries.
\<close>

definition api_response :: "json \<Rightarrow> string \<Rightarrow> datetime \<Rightarrow> ApiResponse" where
  "api_response d m now =
     \<lparr>success = True, data = Some d, message = Some m,
      timestamp = isoformat now, version = ''1.0.0''\<rparr>"

definition error_detail :: "string \<Rightarrow> string \<Rightarrow> datetime \<Rightarrow> (string \<times> json) list" where
  "error_detail code msg now =
     [(''success'', JBool False),
      (''error'', JStr code),
      (''message'', JStr msg),
      (''timestamp'', JStr (isoformat now)),
      (''version'', JStr ''1.0.0'')]"

definition task_not_found :: "string \<Rightarrow> datetime \<Rightarrow> error" where
  "task_not_found tid now =
     HTTPError \<lparr>status_code = 404,
       detail = error_detail ''TASK_NOT_FOUND'' (''Task with ID '' @ tid @ '' not found'') now\<rparr>"

definition story_not_found :: "string \<Rightarrow> datetime \<Rightarrow> error" where
  "story_not_found sid now =
     HTTPError \<lparr>status_code = 404,
       detail = error_detail ''STORY_NOT_FOUND'' (''User story with ID '' @ sid @ '' not found'') now\<rparr>"

subsection \<open>Task handlers\<close>

text \<open>
  Every handler takes the store and the clock readings of its \<^verbatim>\<open>datetime.now()\<close>
  calls, and returns what it returns or raises together with the store afterwards.
\<close>

definition get_tasks :: "store \<Rightarrow> datetime \<Rightarrow> ApiResponse" where
  "get_tasks db now =
     api_response (JList (map JObj (dict_values db))) ''Tasks retrieved successfully'' now"

definition get_task :: "store \<Rightarrow> string \<Rightarrow> datetime \<Rightarrow> (error + ApiResponse) \<times> store" where
  "get_task db tid now =
     (if \<not> dict_contains db tid then (Inl (task_not_found tid now), db)
      else case dict_get db tid of
             None \<Rightarrow> (Inl (KeyError tid), db)
           | Some task \<Rightarrow>
               (Inr (api_response (JObj task) ''Task retrieved successfully'' now), db))"

text \<open>
  \<open>create_task\<close>: the ID is \<^verbatim>\<open>f"task_{len(tasks_db) + 1:03d}"\<close>; \<open>now1\<close> is the clock
  read for \<open>created_at\<close>, \<open>now2\<close> the one for the envelope. The assignment
  \<^verbatim>\<open>tasks_db[task_id] = ...\<close> replaces a record already stored under that ID.
\<close>

definition new_task_id :: "store \<Rightarrow> string" where
  "new_task_id db = ''task_'' @ zpad 3 (dict_len db + 1)"

definition create_task :: "store \<Rightarrow> CreateTaskRequest \<Rightarrow> datetime \<Rightarrow> datetime \<Rightarrow> ApiResponse \<times> store" where
  "create_task db task_request now1 now2 =
     (let tid = new_task_id db;
          new_task = \<lparr>task_id = tid,
                      task_title = req_title task_request,
                      task_description = req_description task_request,
                      task_status = ''pending'',
                      task_created_at = isoformat now1,
                      task_user_story = req_user_story task_request\<rparr>
      in (api_response (JObj (Task_dict new_task)) ''Task created successfully'' now2,
          dict_set db tid (Task_dict new_task)))"

text \<open>
  The loop of \<open>update_task\<close> over \<^verbatim>\<open>task_update.items()\<close>: a key of the payload that
  the record has is overwritten, any other key is skipped.
\<close>

fun update_fields :: "(string \<times> json) list \<Rightarrow> (string \<times> json) list \<Rightarrow> (string \<times> json) list" where
  "update_fields task [] = task"
| "update_fields task ((key, val) # rest) =
     update_fields (if dict_contains task key then dict_set task key val else task) rest"

definition update_task ::
  "store \<Rightarrow> string \<Rightarrow> (string \<times> json) list \<Rightarrow> datetime \<Rightarrow> (error + ApiResponse) \<times> store" where
  "update_task db tid task_update now =
     (if \<not> dict_contains db tid then (Inl (task_not_found tid now), db)
      else case dict_get db tid of
             None \<Rightarrow> (Inl (KeyError tid), db)
           | Some task \<Rightarrow>
               (let task' = update_fields task task_update
                in (Inr (api_response (JObj task') ''Task updated successfully'' now),
                    dict_set db tid task')))"

definition delete_task :: "store \<Rightarrow> string \<Rightarrow> datetime \<Rightarrow> (error + ApiResponse) \<times> store" where
  "delete_task db tid now =
     (if \<not> dict_contains db tid then (Inl (task_not_found tid now), db)
      else (Inr (api_response (JObj [(''message'', JStr ''Task deleted successfully'')])
                   ''Task deleted successfully'' now),
            dict_del db tid))"

subsection \<open>User story handlers\<close>

definition get_user_stories :: "store \<Rightarrow> datetime \<Rightarrow> ApiResponse" where
  "get_user_stories db now =
     api_response (JList (map JObj (dict_values db))) ''User stories retrieved successfully'' now"

definition get_user_story :: "store \<Rightarrow> string \<Rightarrow> datetime \<Rightarrow> (error + ApiResponse) \<times> store" where
  "get_user_story db sid now =
     (if \<not> dict_contains db sid then (Inl (story_not_found sid now), db)
      else case dict_get db sid of
             None \<Rightarrow> (Inl (KeyError sid), db)
           | Some story \<Rightarrow>
               (Inr (api_response (JObj story) ''User story retrieved successfully'' now), db))"

definition new_story_id :: "store \<Rightarrow> string" where
  "new_story_id db = ''story_'' @ zpad 3 (dict_len db + 1)"

definition create_user_story :: "store \<Rightarrow> UserStory \<Rightarrow> datetime \<Rightarrow> ApiResponse \<times> store" where
  "create_user_story db story now =
     (let sid = new_story_id db;
          story' = story\<lparr>story_id := sid\<rparr>
      in (api_response (JObj (UserStory_dict story')) ''User story created successfully'' now,
          dict_set db sid (UserStory_dict story')))"

subsection \<open>Informational and demonstration handlers\<close>

definition root :: "datetime \<Rightarrow> ApiResponse" where
  "root now =
     api_response
       (JObj [(''message'', JStr ''Welcome to Day 1 API Learning!''),
              (''version'', JStr ''1.0.0''),
              (''endpoints'',
                 JObj [(''health'', JStr ''/health''),
                       (''tasks'', JStr ''/tasks''),
                       (''user_stories'', JStr ''/user-stories''),
                       (''docs'', JStr ''/docs'')])])
       ''API is running successfully'' now"

text \<open>\<open>health_check\<close> reads the clock twice: for the payload, then for the envelope.\<close>

definition health_check :: "datetime \<Rightarrow> datetime \<Rightarrow> ApiResponse" where
  "health_check now1 now2 =
     api_response
       (JObj [(''status'', JStr ''healthy''),
              (''timestamp'', JStr (isoformat now1)),
              (''version'', JStr ''1.0.0'')])
       ''Service is healthy'' now2"

definition demonstrate_envelope_pattern :: "datetime \<Rightarrow> ApiResponse" where
  "demonstrate_envelope_pattern now =
     api_response
       (JObj [(''example'', JStr ''This is wrapped in an envelope''),
              (''benefits'',
                 JList [JStr ''Consistent response structure'',
                        JStr ''Metadata included (timestamp, version)'',
                        JStr ''Clear success/failure indication'',
                        JStr ''Extensible for future needs''])])
       ''Envelope pattern demonstration'' now"

text \<open>\<open>demonstrate_direct_response\<close> returns a plain dictionary, not an \<^verbatim>\<open>ApiResponse\<close>.\<close>

definition demonstrate_direct_response :: "(string \<times> json) list" where
  "demonstrate_direct_response =
     [(''example'', JStr ''This is a direct response''),
      (''drawbacks'',
         JList [JStr ''No consistent structure'',
                JStr ''No metadata'',
                JStr ''Harder to handle errors uniformly'',
                JStr ''Less extensible''])]"

definition demonstrate_400 :: "datetime \<Rightarrow> error" where
  "demonstrate_400 now =
     HTTPError \<lparr>status_code = 400,
       detail = error_detail ''BAD_REQUEST'' ''Bad request - invalid parameters'' now\<rparr>"

definition demonstrate_404 :: "datetime \<Rightarrow> error" where
  "demonstrate_404 now =
     HTTPError \<lparr>status_code = 404,
       detail = error_detail ''NOT_FOUND'' ''Resource not found'' now\<rparr>"

definition demonstrate_500 :: "datetime \<Rightarrow> error" where
  "demonstrate_500 now =
     HTTPError \<lparr>status_code = 500,
       detail = error_detail ''INTERNAL_ERROR'' ''Internal server error'' now\<rparr>"

subsection \<open>The route table\<close>

text \<open>
  One constructor per route of the module, with the arguments the handler receives.
\<close>

datatype request =
    GET_root
  | GET_health
  | GET_tasks
  | GET_task string
  | POST_tasks CreateTaskRequest
  | PUT_task string "(string \<times> json) list"
  | DELETE_task string
  | GET_user_stories
  | GET_user_story string
  | POST_user_stories UserStory
  | GET_pattern_envelope
  | GET_pattern_direct
  | GET_error_400
  | GET_error_404
  | GET_error_500

text \<open>
  The requests are those that reach a handler: the framework has matched the route and
  accepted the path and the body. Its own replies to a request it rejects are not part
  of the module and are not modelled.
\<close>

subsection \<open>What the framework does with a handler's outcome\<close>

text \<open>
  A reply is a status code and a body. The body is JSON, or the plain text of the
  framework's answer to an exception that no handler catches.
\<close>

datatype body = JSONBody json | TextBody string

datatype reply = Reply (reply_status: nat) (reply_content: body)

definition internal_server_error :: reply where
  "internal_server_error = Reply 500 (TextBody ''Internal Server Error'')"

text \<open>
  The \<^verbatim>\<open>response_model\<close> a route declares: \<^verbatim>\<open>ApiResponse[dict]\<close>,
  \<^verbatim>\<open>ApiResponse[Task]\<close>, \<^verbatim>\<open>ApiResponse[List[Task]]\<close>, \<^verbatim>\<open>ApiResponse[UserStory]\<close>,
  \<^verbatim>\<open>ApiResponse[List[UserStory]]\<close> and \<^verbatim>\<open>ApiResponse[HealthResponse]\<close>. The returned
  envelope is validated against it before it is sent: a \<^verbatim>\<open>str\<close> field takes a string
  only, an \<^verbatim>\<open>Optional[str]\<close> field a string, \<^verbatim>\<open>null\<close> or nothing, a field with a
  default may be missing, and keys that are not fields are dropped. What is sent is
  the validated model.
\<close>

datatype response_model =
    Model_dict
  | Model_Task
  | Model_Task_list
  | Model_UserStory
  | Model_UserStory_list
  | Model_HealthResponse

fun validate_str :: "json option \<Rightarrow> string option" where
  "validate_str (Some (JStr s)) = Some s"
| "validate_str _ = None"

fun validate_opt_str :: "json option \<Rightarrow> string option option" where
  "validate_opt_str None = Some None"
| "validate_opt_str (Some JNull) = Some None"
| "validate_opt_str (Some (JStr s)) = Some (Some s)"
| "validate_opt_str _ = None"

fun validate_str_default :: "string \<Rightarrow> json option \<Rightarrow> string option" where
  "validate_str_default dflt None = Some dflt"
| "validate_str_default dflt (Some (JStr s)) = Some s"
| "validate_str_default dflt _ = None"

primrec validate_all :: "('a \<Rightarrow> 'b option) \<Rightarrow> 'a list \<Rightarrow> 'b list option" where
  "validate_all f [] = Some []"
| "validate_all f (x # xs) =
     (case f x of
        None \<Rightarrow> None
      | Some y \<Rightarrow> (case validate_all f xs of None \<Rightarrow> None | Some ys \<Rightarrow> Some (y # ys)))"

fun validate_str_list :: "json option \<Rightarrow> string list option" where
  "validate_str_list (Some (JList xs)) = validate_all (\<lambda>j. validate_str (Some j)) xs"
| "validate_str_list _ = None"

fun validate_Task :: "json \<Rightarrow> Task option" where
  "validate_Task (JObj d) =
     (case validate_str (dict_get d ''id'') of None \<Rightarrow> None | Some i \<Rightarrow>
      case validate_str (dict_get d ''title'') of None \<Rightarrow> None | Some t \<Rightarrow>
      case validate_str (dict_get d ''description'') of None \<Rightarrow> None | Some ds \<Rightarrow>
      case validate_str (dict_get d ''status'') of None \<Rightarrow> None | Some st \<Rightarrow>
      case validate_str (dict_get d ''created_at'') of None \<Rightarrow> None | Some c \<Rightarrow>
      case validate_opt_str (dict_get d ''user_story'') of None \<Rightarrow> None | Some u \<Rightarrow>
        Some \<lparr>task_id = i, task_title = t, task_description = ds, task_status = st,
              task_created_at = c, task_user_story = u\<rparr>)"
| "validate_Task _ = None"

fun validate_UserStory :: "json \<Rightarrow> UserStory option" where
  "validate_UserStory (JObj d) =
     (case validate_str (dict_get d ''id'') of None \<Rightarrow> None | Some i \<Rightarrow>
      case validate_str (dict_get d ''as_a'') of None \<Rightarrow> None | Some r \<Rightarrow>
      case validate_str (dict_get d ''i_want'') of None \<Rightarrow> None | Some w \<Rightarrow>
      case validate_str (dict_get d ''so_that'') of None \<Rightarrow> None | Some t \<Rightarrow>
      case validate_str_list (dict_get d ''acceptance_criteria'') of None \<Rightarrow> None | Some ac \<Rightarrow>
      case validate_str_default ''medium'' (dict_get d ''priority'') of None \<Rightarrow> None | Some p \<Rightarrow>
        Some \<lparr>story_id = i, as_a = r, i_want = w, so_that = t,
              acceptance_criteria = ac, priority = p\<rparr>)"
| "validate_UserStory _ = None"

fun validate_HealthResponse :: "json \<Rightarrow> json option" where
  "validate_HealthResponse (JObj d) =
     (case validate_str (dict_get d ''status'') of None \<Rightarrow> None | Some st \<Rightarrow>
      case validate_str (dict_get d ''timestamp'') of None \<Rightarrow> None | Some ts \<Rightarrow>
      case validate_str (dict_get d ''version'') of None \<Rightarrow> None | Some v \<Rightarrow>
        Some (JObj [(''status'', JStr st), (''timestamp'', JStr ts), (''version'', JStr v)]))"
| "validate_HealthResponse _ = None"

fun validate_list :: "(json \<Rightarrow> json option) \<Rightarrow> json \<Rightarrow> json option" where
  "validate_list f (JList xs) = map_option JList (validate_all f xs)"
| "validate_list f _ = None"

fun validate_data :: "response_model \<Rightarrow> json \<Rightarrow> json option" where
  "validate_data Model_dict (JObj d) = Some (JObj d)"
| "validate_data Model_dict _ = None"
| "validate_data Model_Task j = map_option (\<lambda>t. JObj (Task_dict t)) (validate_Task j)"
| "validate_data Model_Task_list j =
     validate_list (\<lambda>x. map_option (\<lambda>t. JObj (Task_dict t)) (validate_Task x)) j"
| "validate_data Model_UserStory j = map_option (\<lambda>s. JObj (UserStory_dict s)) (validate_UserStory j)"
| "validate_data Model_UserStory_list j =
     validate_list (\<lambda>x. map_option (\<lambda>s. JObj (UserStory_dict s)) (validate_UserStory x)) j"
| "validate_data Model_HealthResponse j = validate_HealthResponse j"

definition validate_response :: "response_model \<Rightarrow> ApiResponse \<Rightarrow> ApiResponse option" where
  "validate_response m r =
     (case data r of
        None \<Rightarrow> Some r
      | Some d \<Rightarrow> map_option (\<lambda>d'. r\<lparr>data := Some d'\<rparr>) (validate_data m d))"

definition ApiResponse_dict :: "ApiResponse \<Rightarrow> (string \<times> json) list" where
  "ApiResponse_dict r =
     [(''success'', JBool (success r)),
      (''data'', (case data r of None \<Rightarrow> JNull | Some d \<Rightarrow> d)),
      (''message'', opt_str (message r)),
      (''timestamp'', JStr (timestamp r)),
      (''version'', JStr (version r))]"

text \<open>
  \<open>returned code m r\<close>: the handler returned the envelope \<open>r\<close> on a route with status
  \<open>code\<close> and response model \<open>m\<close>. A failed validation is an exception that nothing
  catches.
\<close>

definition returned :: "nat \<Rightarrow> response_model \<Rightarrow> ApiResponse \<Rightarrow> reply" where
  "returned code m r =
     (case validate_response m r of
        None \<Rightarrow> internal_server_error
      | Some r' \<Rightarrow> Reply code (JSONBody (JObj (ApiResponse_dict r'))))"

text \<open>
  \<open>raised e\<close>: the handler raised \<open>e\<close>. The module registers no exception handler, so
  an \<^verbatim>\<open>HTTPException\<close> is answered by the framework's own: its status code, and a body
  that holds the detail under the key \<^verbatim>\<open>detail\<close>. Any other exception is a 500.
\<close>

fun raised :: "error \<Rightarrow> reply" where
  "raised (HTTPError e) = Reply (status_code e) (JSONBody (JObj [(''detail'', JObj (detail e))]))"
| "raised (KeyError k) = internal_server_error"

text \<open>
  What a handler does: return an envelope (on a route with a status code and a response
  model), return a plain dictionary (on the route that declares no model), or raise.
\<close>

datatype outcome =
    Returns nat response_model ApiResponse
  | ReturnsDict nat "(string \<times> json) list"
  | Raises error

fun render :: "outcome \<Rightarrow> reply" where
  "render (Returns code m r) = returned code m r"
| "render (ReturnsDict code d) = Reply code (JSONBody (JObj d))"
| "render (Raises e) = raised e"

fun result :: "nat \<Rightarrow> response_model \<Rightarrow> error + ApiResponse \<Rightarrow> outcome" where
  "result code m (Inl e) = Raises e"
| "result code m (Inr r) = Returns code m r"

subsection \<open>The application\<close>

record app =
  app_tasks :: store
  app_user_stories :: store

definition initial_app :: app where
  "initial_app = \<lparr>app_tasks = tasks_db, app_user_stories = user_stories_db\<rparr>"

text \<open>
  \<open>handle a clock rq\<close> runs the handler of the route on the state \<open>a\<close>, with the
  status code and the response model of its decorator; \<open>clock i\<close> is the reading of the
  handler's \<open>i\<close>-th call of \<^verbatim>\<open>datetime.now()\<close>. \<open>serve\<close> is the whole exchange.
\<close>

fun handle :: "app \<Rightarrow> (nat \<Rightarrow> datetime) \<Rightarrow> request \<Rightarrow> outcome \<times> app" where
  "handle a clock GET_root = (Returns 200 Model_dict (root (clock 0)), a)"
| "handle a clock GET_health =
     (Returns 200 Model_HealthResponse (health_check (clock 0) (clock 1)), a)"
| "handle a clock GET_tasks =
     (Returns 200 Model_Task_list (get_tasks (app_tasks a) (clock 0)), a)"
| "handle a clock (GET_task tid) =
     (case get_task (app_tasks a) tid (clock 0) of
        (res, db) \<Rightarrow> (result 200 Model_Task res, a\<lparr>app_tasks := db\<rparr>))"
| "handle a clock (POST_tasks task_request) =
     (case create_task (app_tasks a) task_request (clock 0) (clock 1) of
        (r, db) \<Rightarrow> (Returns 201 Model_Task r, a\<lparr>app_tasks := db\<rparr>))"
| "handle a clock (PUT_task tid task_update) =
     (case update_task (app_tasks a) tid task_update (clock 0) of
        (res, db) \<Rightarrow> (result 200 Model_Task res, a\<lparr>app_tasks := db\<rparr>))"
| "handle a clock (DELETE_task tid) =
     (case delete_task (app_tasks a) tid (clock 0) of
        (res, db) \<Rightarrow> (result 200 Model_dict res, a\<lparr>app_tasks := db\<rparr>))"
| "handle a clock GET_user_stories =
     (Returns 200 Model_UserStory_list (get_user_stories (app_user_stories a) (clock 0)), a)"
| "handle a clock (GET_user_story sid) =
     (case get_user_story (app_user_stories a) sid (clock 0) of
        (res, db) \<Rightarrow> (result 200 Model_UserStory res, a\<lparr>app_user_stories := db\<rparr>))"
| "handle a clock (POST_user_stories story) =
     (case create_user_story (app_user_stories a) story (clock 0) of
        (r, db) \<Rightarrow> (Returns 201 Model_UserStory r, a\<lparr>app_user_stories := db\<rparr>))"
| "handle a clock GET_pattern_envelope =
     (Returns 200 Model_dict (demonstrate_envelope_pattern (clock 0)), a)"
| "handle a clock GET_pattern_direct = (ReturnsDict 200 demonstrate_direct_response, a)"
| "handle a clock GET_error_400 = (Raises (demonstrate_400 (clock 0)), a)"
| "handle a clock GET_error_404 = (Raises (demonstrate_404 (clock 0)), a)"
| "handle a clock GET_error_500 = (Raises (demonstrate_500 (clock 0)), a)"

definition serve :: "app \<Rightarrow> (nat \<Rightarrow> datetime) \<Rightarrow> request \<Rightarrow> reply \<times> app" where
  "serve a clock rq = (case handle a clock rq of (out, a') \<Rightarrow> (render out, a'))"

text \<open>
  The envelope shape shared by \<^verbatim>\<open>ApiResponse\<close> and the error dictionaries: a boolean
  \<open>success\<close>, and \<open>timestamp\<close> and \<open>version\<close> that are non-empty strings.
\<close>

fun is_bool :: "json option \<Rightarrow> bool" where
  "is_bool (Some (JBool b)) = True"
| "is_bool _ = False"

fun nonempty_str :: "json option \<Rightarrow> bool" where
  "nonempty_str (Some (JStr s)) = (s \<noteq> [])"
| "nonempty_str _ = False"

fun has_metadata :: "json \<Rightarrow> bool" where
  "has_metadata (JObj d) = (nonempty_str (dict_get d ''timestamp'') \<and> nonempty_str (dict_get d ''version''))"
| "has_metadata _ = False"

fun enveloped :: "json \<Rightarrow> bool" where
  "enveloped (JObj d) = (is_bool (dict_get d ''success'') \<and> has_metadata (JObj d))"
| "enveloped _ = False"

text \<open>The same of a reply's body; a plain-text body has neither.\<close>

fun body_has_metadata :: "body \<Rightarrow> bool" where
  "body_has_metadata (JSONBody j) = has_metadata j"
| "body_has_metadata (TextBody s) = False"

fun body_enveloped :: "body \<Rightarrow> bool" where
  "body_enveloped (JSONBody j) = enveloped j"
| "body_enveloped (TextBody s) = False"

section \<open>The gRPC demo service (Day-1/demos/grpc-demo/server.py)\<close>

record TaskUpdateRequest =
  request_task_id :: string
  new_status :: string

record BatchResponse =
  successful_updates :: int
  failed_updates :: int
  error_messages :: "string list"

type_synonym mock_store = "(string \<times> (string \<times> string) list) list"

definition mock_tasks :: mock_store where
  "mock_tasks =
     [(''task_001'', [(''title'', ''Implement API''), (''status'', ''in_progress''), (''assigned_to'', ''alice'')]),
      (''task_002'', [(''title'', ''Write tests''), (''status'', ''completed''), (''assigned_to'', ''bob'')]),
      (''task_003'', [(''title'', ''Code review''), (''status'', ''pending''), (''assigned_to'', ''charlie'')]),
      (''task_004'', [(''title'', ''Deploy to staging''), (''status'', ''overdue''), (''assigned_to'', ''diana'')])]"

text \<open>
  The constant \<^verbatim>\<open>0.2\<close> of the source is a double; this is its exact value. A draw of
  \<^verbatim>\<open>random.random()\<close> is the exact value of the double it returns, and the generator
  is the stream of its future draws.
\<close>

definition failure_rate :: rat where
  "failure_rate = 3602879701896397 / 18014398509481984"

definition set_status :: "mock_store \<Rightarrow> string \<Rightarrow> string \<Rightarrow> mock_store" where
  "set_status mt tid st =
     (if dict_contains mt tid
      then (case dict_get mt tid of
              None \<Rightarrow> mt
            | Some t \<Rightarrow> dict_set mt tid (dict_set t ''status'' st))
      else mt)"

text \<open>
  The loop of \<open>BatchUpdateTasks\<close> over the request stream, with its four variables:
  the two counters, the error list and the mock data.
\<close>

fun process_updates ::
  "TaskUpdateRequest list \<Rightarrow> rat stream \<Rightarrow> int \<Rightarrow> int \<Rightarrow> string list \<Rightarrow> mock_store
     \<Rightarrow> int \<times> int \<times> string list \<times> mock_store" where
  "process_updates [] rnd ok failed errs mt = (ok, failed, errs, mt)"
| "process_updates (request # rest) rnd ok failed errs mt =
     (if shd rnd < failure_rate
      then process_updates rest (stl rnd) ok (failed + 1)
             (errs @ [''Failed to update '' @ request_task_id request]) mt
      else process_updates rest (stl rnd) (ok + 1) failed errs
             (set_status mt (request_task_id request) (new_status request)))"

definition BatchUpdateTasks ::
  "mock_store \<Rightarrow> TaskUpdateRequest list \<Rightarrow> rat stream \<Rightarrow> BatchResponse \<times> mock_store" where
  "BatchUpdateTasks mt request_iterator rnd =
     (case process_updates request_iterator rnd 0 0 [] mt of
        (ok, failed, errs, mt') \<Rightarrow>
          (\<lparr>successful_updates = ok, failed_updates = failed, error_messages = errs\<rparr>, mt'))"

text \<open>The items of a batch that fail: those whose draw is below the failure rate.\<close>

fun failed_items :: "TaskUpdateRequest list \<Rightarrow> rat stream \<Rightarrow> TaskUpdateRequest list" where
  "failed_items [] rnd = []"
| "failed_items (request # rest) rnd =
     (if shd rnd < failure_rate then request # failed_items rest (stl rnd)
      else failed_items rest (stl rnd))"

section \<open>Observations used to state the properties\<close>

text \<open>
  \<open>task_field db tid k\<close> is the value of field \<open>k\<close> of the record stored under
  \<open>tid\<close>, if there is such a record and it has the field.
\<close>

definition task_field :: "store \<Rightarrow> string \<Rightarrow> string \<Rightarrow> json option" where
  "task_field db tid k = (case dict_get db tid of None \<Rightarrow> None | Some task \<Rightarrow> dict_get task k)"

text \<open>The NotFound outcome of the task routes: a 404 whose detail names the error.\<close>

fun task_not_found_outcome :: "error + ApiResponse \<Rightarrow> bool" where
  "task_not_found_outcome (Inl (HTTPError e)) =
     (status_code e = 404 \<and>
      dict_get (detail e) ''success'' = Some (JBool False) \<and>
      dict_get (detail e) ''error'' = Some (JStr ''TASK_NOT_FOUND''))"
| "task_not_found_outcome (Inl (KeyError k)) = False"
| "task_not_found_outcome (Inr r) = False"

fun succeeded :: "error + ApiResponse \<Rightarrow> bool" where
  "succeeded (Inr r) = success r"
| "succeeded (Inl e) = False"

text \<open>Field \<open>k\<close> of the object in \<open>data\<close> of an envelope, and of a successful result.\<close>

definition response_field :: "ApiResponse \<Rightarrow> string \<Rightarrow> json option" where
  "response_field r k = (case data r of Some (JObj d) \<Rightarrow> dict_get d k | _ \<Rightarrow> None)"

fun result_field :: "error + ApiResponse \<Rightarrow> string \<Rightarrow> json option" where
  "result_field (Inr r) k = response_field r k"
| "result_field (Inl e) k = None"

text \<open>Every record of the store carries its own key in its \<open>id\<close> field.\<close>

definition ids_consistent :: "store \<Rightarrow> bool" where
  "ids_consistent db = list_all (\<lambda>p. dict_get (snd p) ''id'' = Some (JStr (fst p))) db"

text \<open>A request that names the field \<open>id\<close> in a task update.\<close>

fun writes_id :: "request \<Rightarrow> bool" where
  "writes_id (PUT_task tid task_update) = dict_contains task_update ''id''"
| "writes_id _ = False"

text \<open>A handler with a lookup returns an envelope or raises its NotFound exception.\<close>

definition lookup_result :: "error + ApiResponse \<Rightarrow> string \<Rightarrow> datetime \<Rightarrow> bool" where
  "lookup_result res code now =
     ((\<exists>d msg. res = Inr (api_response d msg now)) \<or>
      (\<exists>msg. res = Inl (HTTPError \<lparr>status_code = 404, detail = error_detail code msg now\<rparr>)))"

text \<open>A clock reading for the examples.\<close>

definition noon :: datetime where
  "noon = \<lparr>year = 2024, month = 1, day = 15, hour = 12, minute = 0, second = 0, microsecond = 0\<rparr>"

section \<open>Facts about the dictionary operations and the formatting\<close>

lemma dict_contains_iff: "dict_contains d k \<longleftrightarrow> k \<in> set (map fst d)"
  by (induction d) auto

lemma dict_get_None_iff: "dict_get d k = None \<longleftrightarrow> \<not> dict_contains d k"
  by (induction d) auto

lemma dict_get_absent: "\<not> dict_contains d k \<Longrightarrow> dict_get d k = None"
  by (simp add: dict_get_None_iff)

lemma dict_get_present: "dict_contains d k \<Longrightarrow> \<exists>v. dict_get d k = Some v"
  using dict_get_None_iff [of d k] by (cases "dict_get d k") simp_all

lemma dict_get_set: "dict_get (dict_set d k v) k' = (if k' = k then Some v else dict_get d k')"
  by (induction d) auto

lemma keys_dict_set: "dict_contains d k \<Longrightarrow> map fst (dict_set d k v) = map fst d"
  by (induction d) auto

lemma dict_contains_set: "dict_contains (dict_set d k v) k' \<longleftrightarrow> k' = k \<or> dict_contains d k'"
  by (induction d) auto

lemma dict_get_del: "dict_get (dict_del d k) k' = (if k' = k then None else dict_get d k')"
  by (induction d) auto

lemma dict_contains_del: "dict_contains (dict_del d k) k' \<longleftrightarrow> k' \<noteq> k \<and> dict_contains d k'"
  by (induction d) auto

text \<open>The operations keep the keys of a dictionary pairwise different.\<close>

lemma keys_dict_set_new: "\<not> dict_contains d k \<Longrightarrow> map fst (dict_set d k v) = map fst d @ [k]"
  by (induction d) auto

lemma wf_dict_set: "wf_dict d \<Longrightarrow> wf_dict (dict_set d k v)"
proof (cases "dict_contains d k")
  case True
  assume "wf_dict d"
  with True show ?thesis by (simp add: wf_dict_def keys_dict_set)
next
  case False
  assume "wf_dict d"
  with False show ?thesis by (simp add: wf_dict_def keys_dict_set_new dict_contains_iff)
qed

lemma keys_dict_del: "map fst (dict_del d k) = filter (\<lambda>x. x \<noteq> k) (map fst d)"
  by (induction d) auto

lemma wf_dict_del: "wf_dict d \<Longrightarrow> wf_dict (dict_del d k)"
  by (simp add: wf_dict_def keys_dict_del)

text \<open>In a dictionary, \<open>len\<close> counts the keys.\<close>

lemma dict_len_card: "wf_dict d \<Longrightarrow> dict_len d = card (set (dict_keys d))"
proof -
  assume "wf_dict d"
  then have "card (set (map fst d)) = length (map fst d)"
    unfolding wf_dict_def by (rule distinct_card)
  then show ?thesis by (simp add: dict_len_def dict_keys_def)
qed

lemma keys_update_fields: "map fst (update_fields task upd) = map fst task"
  by (induction task upd rule: update_fields.induct) (auto simp: keys_dict_set)

lemma dict_contains_update_fields: "dict_contains (update_fields task upd) k = dict_contains task k"
  by (simp add: dict_contains_iff keys_update_fields)

lemma dict_get_update_fields_absent:
  "\<not> dict_contains upd k \<Longrightarrow> dict_get (update_fields task upd) k = dict_get task k"
  by (induction task upd rule: update_fields.induct) (auto simp: dict_get_set)

text \<open>
  The loop of \<open>update_task\<close>, field by field: a field the record has takes the
  payload's value when the payload names it, and keeps its own otherwise; a field the
  record does not have stays absent.
\<close>

lemma dict_get_update_fields:
  "distinct (map fst upd) \<Longrightarrow>
   dict_get (update_fields task upd) k =
     (if dict_contains task k
      then (case dict_get upd k of None \<Rightarrow> dict_get task k | Some v \<Rightarrow> Some v)
      else None)"
proof (induction upd arbitrary: task)
  case Nil
  then show ?case by (simp add: dict_get_absent)
next
  case (Cons p rest)
  obtain key val where p: "p = (key, val)" by (cases p)
  define task' where "task' = (if dict_contains task key then dict_set task key val else task)"
  from Cons.prems p have fresh: "\<not> dict_contains rest key" and dist: "distinct (map fst rest)"
    by (simp_all add: dict_contains_iff)
  have same: "dict_contains task' k = dict_contains task k"
    by (auto simp: task'_def dict_contains_set)
  have step: "dict_get (update_fields task (p # rest)) k =
      (if dict_contains task k
       then (case dict_get rest k of None \<Rightarrow> dict_get task' k | Some v \<Rightarrow> Some v)
       else None)"
    using Cons.IH [OF dist, of task'] by (simp add: p task'_def [symmetric] same)
  show ?case
  proof (cases "k = key")
    case True
    from fresh True have none: "dict_get rest k = None" by (simp add: dict_get_absent)
    have "dict_get task' key = (if dict_contains task key then Some val else dict_get task key)"
      by (simp add: task'_def dict_get_set)
    with True none show ?thesis
      unfolding step by (simp add: p dict_get_absent split: option.splits)
  next
    case False
    then have "dict_get task' k = dict_get task k"
      by (simp add: task'_def dict_get_set)
    with False show ?thesis unfolding step by (simp add: p split: option.splits)
  qed
qed

lemma digit_val_digit_char: "d < 10 \<Longrightarrow> digit_val (digit_char d) = d"
proof -
  assume "d < 10"
  then have "d \<in> {0,1,2,3,4,5,6,7,8,9}" by auto
  then show ?thesis by (auto simp: digit_val_def digit_char_def)
qed

lemma is_digit_digit_char: "d < 10 \<Longrightarrow> is_digit (digit_char d)"
proof -
  assume "d < 10"
  then have "d \<in> {0,1,2,3,4,5,6,7,8,9}" by auto
  then show ?thesis by (auto simp: is_digit_def digit_char_def)
qed

lemma dec_val_snoc: "dec_val (s @ [c]) = 10 * dec_val s + digit_val c"
  by (simp add: dec_val_def)

lemma dec_val_str_nat: "dec_val (str_nat n) = n"
proof (induction n rule: str_nat.induct)
  case (1 n)
  show ?case
  proof (cases "n < 10")
    case True
    then show ?thesis by (subst str_nat.simps) (simp add: dec_val_def digit_val_digit_char)
  next
    case False
    with 1 show ?thesis by (subst str_nat.simps) (simp add: dec_val_snoc digit_val_digit_char)
  qed
qed

lemma digits_str_nat: "list_all is_digit (str_nat n)"
proof (induction n rule: str_nat.induct)
  case (1 n)
  show ?case
  proof (cases "n < 10")
    case True
    then show ?thesis by (subst str_nat.simps) (simp add: is_digit_digit_char)
  next
    case False
    with 1 show ?thesis by (subst str_nat.simps) (simp add: is_digit_digit_char)
  qed
qed

lemma dec_val_zeros: "dec_val (replicate k (CHR ''0'') @ s) = dec_val s"
  by (induction k) (simp_all add: dec_val_def digit_val_def)

text \<open>The padded format denotes the number, has at least the width, and is all digits.\<close>

lemma dec_val_zpad: "dec_val (zpad w n) = n"
  by (simp add: zpad_def Let_def dec_val_zeros dec_val_str_nat)

lemma length_zpad: "w \<le> length (zpad w n)"
  by (simp add: zpad_def Let_def)

lemma is_digit_zero: "is_digit (CHR ''0'')"
  by (simp add: is_digit_def)

lemma digits_zpad: "list_all is_digit (zpad w n)"
  using digits_str_nat [of n] by (auto simp: zpad_def Let_def list_all_iff is_digit_zero)

lemma str_nat_nonempty: "str_nat n \<noteq> []"
  by (subst str_nat.simps) simp

lemma isoformat_nonempty: "isoformat t \<noteq> []"
  by (simp add: isoformat_def zpad_def Let_def str_nat_nonempty)

section \<open>Properties of the services\<close>

lemma fst_serve [simp]: "fst (serve a clock rq) = render (fst (handle a clock rq))"
  by (simp add: serve_def case_prod_beta)

lemma snd_serve [simp]: "snd (serve a clock rq) = snd (handle a clock rq)"
  by (simp add: serve_def case_prod_beta)

lemma validate_Task_dict: "validate_Task (JObj (Task_dict t)) = Some t"
  by (cases "task_user_story t") (simp_all add: Task_dict_def opt_str_def)

lemma validate_all_JStr: "validate_all (\<lambda>j. validate_str (Some j)) (map JStr xs) = Some xs"
  by (induction xs) simp_all

lemma validate_UserStory_dict: "validate_UserStory (JObj (UserStory_dict s)) = Some s"
  by (simp add: UserStory_dict_def validate_all_JStr)


lemma task_not_found_shape: "task_not_found_outcome (Inl (task_not_found tid now))"
  by (simp add: task_not_found_def error_detail_def)

lemma new_task_id_shape:
  "take 5 (new_task_id db) = ''task_'' \<and>
   dec_val (drop 5 (new_task_id db)) = dict_len db + 1 \<and>
   3 \<le> length (drop 5 (new_task_id db)) \<and>
   list_all is_digit (drop 5 (new_task_id db))"
  by (simp add: new_task_id_def dec_val_zpad length_zpad digits_zpad)

lemma new_story_id_shape:
  "take 6 (new_story_id db) = ''story_'' \<and>
   dec_val (drop 6 (new_story_id db)) = dict_len db + 1 \<and>
   3 \<le> length (drop 6 (new_story_id db)) \<and>
   list_all is_digit (drop 6 (new_story_id db))"
  by (simp add: new_story_id_def dec_val_zpad length_zpad digits_zpad)



text \<open>
  C2. For a task ID in the store and an update payload, \<open>update_task\<close> succeeds and
  the stored record afterwards has, for every field name \<open>k\<close>: no field \<open>k\<close> when
  the record had none (a key of the payload that the record lacks is ignored, no field is
  added); the payload's value when the record had the field and the payload names it; the
  prior value when the payload does not name it. The response carries the stored record,
  and every other record and the set of stored IDs are unchanged.
\<close>
theorem partial_update_frame:
  assumes "dict_contains db tid" and "wf_dict task_update"
  shows "succeeded (fst (update_task db tid task_update now)) \<and>
         task_field (snd (update_task db tid task_update now)) tid k =
           (if task_field db tid k = None then None
            else case dict_get task_update k of
                   None \<Rightarrow> task_field db tid k
                 | Some v \<Rightarrow> Some v) \<and>
         result_field (fst (update_task db tid task_update now)) k =
           task_field (snd (update_task db tid task_update now)) tid k \<and>
         (\<forall>t. t \<noteq> tid \<longrightarrow>
            dict_get (snd (update_task db tid task_update now)) t = dict_get db t) \<and>
         dict_keys (snd (update_task db tid task_update now)) = dict_keys db"
proof -
  from dict_get_present [OF assms(1)] obtain task where task: "dict_get db tid = Some task" ..
  define task' where "task' = update_fields task task_update"
  have upd: "update_task db tid task_update now =
      (Inr (api_response (JObj task') ''Task updated successfully'' now), dict_set db tid task')"
    using assms(1) task by (simp add: update_task_def Let_def task'_def)
  from assms(2) have dist: "distinct (map fst task_update)"
    by (simp add: wf_dict_def)
  have field: "dict_get task' k =
      (if dict_get task k = None then None
       else case dict_get task_update k of None \<Rightarrow> dict_get task k | Some v \<Rightarrow> Some v)"
    unfolding task'_def dict_get_update_fields [OF dist] by (simp add: dict_get_None_iff)
  have c1: "succeeded (fst (update_task db tid task_update now))"
    by (simp add: upd api_response_def)
  have after: "task_field (snd (update_task db tid task_update now)) tid k = dict_get task' k"
    by (simp add: upd task_field_def dict_get_set)
  have before: "task_field db tid k = dict_get task k"
    by (simp add: task_field_def task)
  have c2: "task_field (snd (update_task db tid task_update now)) tid k =
           (if task_field db tid k = None then None
            else case dict_get task_update k of
                   None \<Rightarrow> task_field db tid k
                 | Some v \<Rightarrow> Some v)"
    unfolding after before by (rule field)
  have c3: "result_field (fst (update_task db tid task_update now)) k =
           task_field (snd (update_task db tid task_update now)) tid k"
    unfolding after by (simp add: upd response_field_def api_response_def)
  have c4: "\<forall>t. t \<noteq> tid \<longrightarrow>
            dict_get (snd (update_task db tid task_update now)) t = dict_get db t"
    by (simp add: upd dict_get_set)
  have c5: "dict_keys (snd (update_task db tid task_update now)) = dict_keys db"
    using assms(1) by (simp add: upd dict_keys_def keys_dict_set)
  show ?thesis by (intro conjI c1 c2 c3 c4 c5)
qed

theorem partial_update_frame_witness:
  "dict_contains tasks_db ''task_001'' \<and>
   wf_dict [(''status'', JStr ''completed''), (''assignee'', JStr ''alice'')] \<and>
   task_field (snd (update_task tasks_db ''task_001''
       [(''status'', JStr ''completed''), (''assignee'', JStr ''alice'')] noon)) ''task_001'' ''status''
     = Some (JStr ''completed'') \<and>
   task_field (snd (update_task tasks_db ''task_001''
       [(''status'', JStr ''completed''), (''assignee'', JStr ''alice'')] noon)) ''task_001'' ''title''
     = Some (JStr ''Learn FastAPI'') \<and>
   task_field (snd (update_task tasks_db ''task_001''
       [(''status'', JStr ''completed''), (''assignee'', JStr ''alice'')] noon)) ''task_001'' ''assignee''
     = None"
proof -
  let ?upd = "[(''status'', JStr ''completed''), (''assignee'', JStr ''alice'')]"
  have present: "dict_contains tasks_db ''task_001''"
    by (simp add: tasks_db_def)
  have wf: "wf_dict ?upd"
    by (simp add: wf_dict_def)
  have before:
    "task_field tasks_db ''task_001'' ''status'' = Some (JStr ''in_progress'')"
    "task_field tasks_db ''task_001'' ''title'' = Some (JStr ''Learn FastAPI'')"
    "task_field tasks_db ''task_001'' ''assignee'' = None"
    by (simp_all add: task_field_def tasks_db_def)
  have s: "task_field (snd (update_task tasks_db ''task_001'' ?upd noon)) ''task_001'' ''status''
      = Some (JStr ''completed'')"
    using partial_update_frame [OF present wf, of noon "''status''"] by (simp add: before)
  have t: "task_field (snd (update_task tasks_db ''task_001'' ?upd noon)) ''task_001'' ''title''
      = Some (JStr ''Learn FastAPI'')"
    using partial_update_frame [OF present wf, of noon "''title''"] by (simp add: before)
  have a: "task_field (snd (update_task tasks_db ''task_001'' ?upd noon)) ''task_001'' ''assignee''
      = None"
    using partial_update_frame [OF present wf, of noon "''assignee''"] by (simp add: before)
  show ?thesis by (intro conjI present wf s t a)
qed

text \<open>
  C3. \<open>POST /tasks\<close> answers 201 with \<open>success\<close> true and the new ID in its data;
  \<open>get_task\<close> with that ID on the store after the create succeeds and returns the
  submitted title, description and user story, with status \<^verbatim>\<open>pending\<close>.
\<close>
theorem create_then_get_roundtrip:
  "reply_status (fst (serve a clock (POST_tasks task_request))) = 201 \<and>
   success (fst (create_task db task_request now1 now2)) \<and>
   response_field (fst (create_task db task_request now1 now2)) ''id'' = Some (JStr (new_task_id db)) \<and>
   succeeded (fst (get_task (snd (create_task db task_request now1 now2)) (new_task_id db) now3)) \<and>
   result_field (fst (get_task (snd (create_task db task_request now1 now2)) (new_task_id db) now3)) ''title''
     = Some (JStr (req_title task_request)) \<and>
   result_field (fst (get_task (snd (create_task db task_request now1 now2)) (new_task_id db) now3)) ''description''
     = Some (JStr (req_description task_request)) \<and>
   result_field (fst (get_task (snd (create_task db task_request now1 now2)) (new_task_id db) now3)) ''user_story''
     = Some (opt_str (req_user_story task_request)) \<and>
   result_field (fst (get_task (snd (create_task db task_request now1 now2)) (new_task_id db) now3)) ''status''
     = Some (JStr ''pending'')"
proof -
  define tid where "tid = new_task_id db"
  define res where "res = create_task db task_request now1 now2"
  have status: "reply_status (fst (serve a clock (POST_tasks task_request))) = 201"
    by (simp add: case_prod_beta create_task_def Let_def returned_def validate_response_def
        api_response_def validate_Task_dict del: validate_Task.simps)
  have r: "success (fst res) \<and> response_field (fst res) ''id'' = Some (JStr tid)"
    by (simp add: res_def tid_def create_task_def Let_def api_response_def Task_dict_def response_field_def)
  have stored: "dict_contains (snd res) tid"
    and lookup: "dict_get (snd res) tid = Some
      [(''id'', JStr tid),
       (''title'', JStr (req_title task_request)),
       (''description'', JStr (req_description task_request)),
       (''status'', JStr ''pending''),
       (''created_at'', JStr (isoformat now1)),
       (''user_story'', opt_str (req_user_story task_request))]"
    by (simp_all add: res_def tid_def create_task_def Let_def dict_contains_set dict_get_set Task_dict_def)
  have g: "fst (get_task (snd res) tid now3) = Inr (api_response (JObj
      [(''id'', JStr tid),
       (''title'', JStr (req_title task_request)),
       (''description'', JStr (req_description task_request)),
       (''status'', JStr ''pending''),
       (''created_at'', JStr (isoformat now1)),
       (''user_story'', opt_str (req_user_story task_request))]) ''Task retrieved successfully'' now3)"
    using stored lookup by (simp add: get_task_def)
  show ?thesis
    unfolding tid_def [symmetric] res_def [symmetric] g
    using status r by (simp add: api_response_def response_field_def)
qed

theorem create_then_get_roundtrip_witness:
  "result_field (fst (get_task (snd (create_task tasks_db
       \<lparr>req_title = ''X'', req_description = ''Y'', req_user_story = None\<rparr> noon noon))
       (new_task_id tasks_db) noon)) ''title'' = Some (JStr ''X'') \<and>
   result_field (fst (get_task (snd (create_task tasks_db
       \<lparr>req_title = ''X'', req_description = ''Y'', req_user_story = None\<rparr> noon noon))
       (new_task_id tasks_db) noon)) ''user_story'' = Some JNull \<and>
   reply_status (fst (serve initial_app (\<lambda>i. noon)
       (POST_tasks \<lparr>req_title = ''X'', req_description = ''Y'', req_user_story = None\<rparr>))) = 201"
  using create_then_get_roundtrip [of initial_app "\<lambda>i. noon"
      "\<lparr>req_title = ''X'', req_description = ''Y'', req_user_story = None\<rparr>" tasks_db noon noon noon]
  by (simp add: opt_str_def)

lemma enveloped_ApiResponse_dict:
  "timestamp r \<noteq> [] \<Longrightarrow> version r \<noteq> [] \<Longrightarrow> enveloped (JObj (ApiResponse_dict r))"
  by (simp add: ApiResponse_dict_def)

lemma enveloped_error_detail: "enveloped (JObj (error_detail code msg now))"
  by (simp add: error_detail_def isoformat_nonempty)

lemma error_detail_success: "dict_get (error_detail code msg now) ''success'' = Some (JBool False)"
  by (simp add: error_detail_def)

lemma validate_response_keeps:
  "validate_response m r = Some r' \<Longrightarrow> timestamp r' = timestamp r \<and> version r' = version r"
  by (auto simp: validate_response_def split: option.splits)

lemma returned_enveloped:
  assumes "reply_status (returned code m (api_response d msg now)) < 300"
  shows "body_enveloped (reply_content (returned code m (api_response d msg now)))"
proof (cases "validate_response m (api_response d msg now)")
  case None
  with assms show ?thesis by (simp add: returned_def internal_server_error_def)
next
  case (Some r')
  from validate_response_keeps [OF Some]
  have "timestamp r' \<noteq> [] \<and> version r' \<noteq> []"
    by (simp add: api_response_def isoformat_nonempty)
  then have "enveloped (JObj (ApiResponse_dict r'))"
    by (simp add: enveloped_ApiResponse_dict del: enveloped.simps)
  with Some show ?thesis by (simp add: returned_def del: enveloped.simps)
qed

lemma get_task_result: "lookup_result (fst (get_task db tid now)) ''TASK_NOT_FOUND'' now"
proof (cases "dict_contains db tid")
  case True
  from dict_get_present [OF True] obtain task where "dict_get db tid = Some task" ..
  with True show ?thesis by (auto simp: get_task_def lookup_result_def)
next
  case False
  then show ?thesis by (auto simp: get_task_def lookup_result_def task_not_found_def)
qed

lemma update_task_result: "lookup_result (fst (update_task db tid task_update now)) ''TASK_NOT_FOUND'' now"
proof (cases "dict_contains db tid")
  case True
  from dict_get_present [OF True] obtain task where "dict_get db tid = Some task" ..
  with True show ?thesis by (auto simp: update_task_def Let_def lookup_result_def)
next
  case False
  then show ?thesis by (auto simp: update_task_def lookup_result_def task_not_found_def)
qed

lemma delete_task_result: "lookup_result (fst (delete_task db tid now)) ''TASK_NOT_FOUND'' now"
  by (auto simp: delete_task_def lookup_result_def task_not_found_def)

lemma get_user_story_result: "lookup_result (fst (get_user_story db sid now)) ''STORY_NOT_FOUND'' now"
proof (cases "dict_contains db sid")
  case True
  from dict_get_present [OF True] obtain story where "dict_get db sid = Some story" ..
  with True show ?thesis by (auto simp: get_user_story_def lookup_result_def)
next
  case False
  then show ?thesis by (auto simp: get_user_story_def lookup_result_def story_not_found_def)
qed

lemma lookup_result_enveloped:
  assumes "lookup_result res errcode now"
    and "reply_status (render (result code m res)) < 300"
  shows "body_enveloped (reply_content (render (result code m res)))"
  using assms returned_enveloped [of code m _ _ now]
  by (auto simp: lookup_result_def simp del: body_enveloped.simps)

lemma lookup_result_raises:
  assumes "lookup_result res errcode now" and "result code m res = Raises (HTTPError e)"
  shows "dict_get (detail e) ''success'' = Some (JBool False) \<and> has_metadata (JObj (detail e))"
proof -
  from assms obtain msg where "e = \<lparr>status_code = 404, detail = error_detail errcode msg now\<rparr>"
    by (auto simp: lookup_result_def)
  with enveloped_error_detail [of errcode msg now] error_detail_success [of errcode msg now]
  show ?thesis by simp
qed

lemma success_reply_enveloped:
  assumes "rq \<noteq> GET_pattern_direct" and "reply_status (fst (serve a clock rq)) < 300"
  shows "body_enveloped (reply_content (fst (serve a clock rq)))"
proof (cases rq)
  case (GET_task tid)
  with assms(2) lookup_result_enveloped [OF get_task_result, of 200 Model_Task "app_tasks a" tid "clock 0"]
  show ?thesis by (simp add: case_prod_beta del: body_enveloped.simps)
next
  case (PUT_task tid task_update)
  with assms(2) lookup_result_enveloped [OF update_task_result, of 200 Model_Task "app_tasks a" tid task_update "clock 0"]
  show ?thesis by (simp add: case_prod_beta del: body_enveloped.simps)
next
  case (DELETE_task tid)
  with assms(2) lookup_result_enveloped [OF delete_task_result, of 200 Model_dict "app_tasks a" tid "clock 0"]
  show ?thesis by (simp add: case_prod_beta del: body_enveloped.simps)
next
  case (GET_user_story sid)
  with assms(2) lookup_result_enveloped [OF get_user_story_result, of 200 Model_UserStory "app_user_stories a" sid "clock 0"]
  show ?thesis by (simp add: case_prod_beta del: body_enveloped.simps)
next
  case (POST_tasks task_request)
  with assms(2) show ?thesis
    by (simp add: case_prod_beta create_task_def Let_def returned_enveloped del: body_enveloped.simps)
next
  case (POST_user_stories story)
  with assms(2) show ?thesis
    by (simp add: case_prod_beta create_user_story_def Let_def returned_enveloped del: body_enveloped.simps)
next
  case GET_pattern_direct
  with assms(1) show ?thesis by simp
next
  case GET_root
  with assms(2) show ?thesis by (simp add: root_def returned_enveloped del: body_enveloped.simps)
next
  case GET_health
  with assms(2) show ?thesis by (simp add: health_check_def returned_enveloped del: body_enveloped.simps)
next
  case GET_tasks
  with assms(2) show ?thesis by (simp add: get_tasks_def returned_enveloped del: body_enveloped.simps)
next
  case GET_user_stories
  with assms(2) show ?thesis by (simp add: get_user_stories_def returned_enveloped del: body_enveloped.simps)
next
  case GET_pattern_envelope
  with assms(2) show ?thesis
    by (simp add: demonstrate_envelope_pattern_def returned_enveloped del: body_enveloped.simps)
next
  case GET_error_400
  with assms(2) show ?thesis by (simp add: demonstrate_400_def)
next
  case GET_error_404
  with assms(2) show ?thesis by (simp add: demonstrate_404_def)
next
  case GET_error_500
  with assms(2) show ?thesis by (simp add: demonstrate_500_def)
qed

lemma body_enveloped_metadata: "body_enveloped b \<Longrightarrow> body_has_metadata b"
proof (cases b)
  case (JSONBody j)
  assume "body_enveloped b"
  with JSONBody show ?thesis by (cases j) simp_all
next
  case (TextBody s)
  assume "body_enveloped b"
  with TextBody show ?thesis by simp
qed

lemma direct_reply:
  "reply_status (fst (serve a clock GET_pattern_direct)) = 200 \<and>
   \<not> body_has_metadata (reply_content (fst (serve a clock GET_pattern_direct))) \<and>
   \<not> body_enveloped (reply_content (fst (serve a clock GET_pattern_direct)))"
  by (simp add: demonstrate_direct_response_def)

lemma raised_detail_enveloped:
  assumes "fst (handle a clock rq) = Raises (HTTPError e)"
  shows "dict_get (detail e) ''success'' = Some (JBool False) \<and> has_metadata (JObj (detail e))"
proof (cases rq)
  case (GET_task tid)
  with assms lookup_result_raises [OF get_task_result, of 200 Model_Task "app_tasks a" tid "clock 0" e]
  show ?thesis by (simp add: case_prod_beta del: has_metadata.simps)
next
  case (PUT_task tid task_update)
  with assms lookup_result_raises [OF update_task_result, of 200 Model_Task "app_tasks a" tid task_update "clock 0" e]
  show ?thesis by (simp add: case_prod_beta del: has_metadata.simps)
next
  case (DELETE_task tid)
  with assms lookup_result_raises [OF delete_task_result, of 200 Model_dict "app_tasks a" tid "clock 0" e]
  show ?thesis by (simp add: case_prod_beta del: has_metadata.simps)
next
  case (GET_user_story sid)
  with assms lookup_result_raises [OF get_user_story_result, of 200 Model_UserStory "app_user_stories a" sid "clock 0" e]
  show ?thesis by (simp add: case_prod_beta del: has_metadata.simps)
next
  case GET_error_400
  with assms enveloped_error_detail [of "''BAD_REQUEST''" "''Bad request - invalid parameters''" "clock 0"]
  show ?thesis by (auto simp: demonstrate_400_def error_detail_success simp del: has_metadata.simps enveloped.simps)
     (simp add: error_detail_def isoformat_nonempty)
next
  case GET_error_404
  with assms show ?thesis
    by (auto simp: demonstrate_404_def error_detail_def isoformat_nonempty)
next
  case GET_error_500
  with assms show ?thesis
    by (auto simp: demonstrate_500_def error_detail_def isoformat_nonempty)
qed (use assms in \<open>simp_all add: case_prod_beta\<close>)

text \<open>
  C4. Not every response body has \<open>timestamp\<close> and \<open>version\<close>. An
  \<^verbatim>\<open>HTTPException\<close> is answered with its detail under the key \<^verbatim>\<open>detail\<close>, so the
  body of \<^verbatim>\<open>GET /error/400\<close>, and of \<^verbatim>\<open>GET /tasks/task_999\<close> on the seeded store,
  has neither field at its top level. After \<^verbatim>\<open>PUT /tasks/task_001\<close> with
  \<^verbatim>\<open>{"title": null}\<close> the returned record fails the validation against
  \<^verbatim>\<open>ApiResponse[Task]\<close>, and the answer is a plain-text 500.
\<close>

theorem error_reply_not_enveloped:
  "reply_content (fst (serve initial_app (\<lambda>i. noon) GET_error_400)) =
     JSONBody (JObj [(''detail'',
       JObj [(''success'', JBool False), (''error'', JStr ''BAD_REQUEST''),
             (''message'', JStr ''Bad request - invalid parameters''),
             (''timestamp'', JStr ''2024-01-15T12:00:00''), (''version'', JStr ''1.0.0'')])]) \<and>
   \<not> body_has_metadata (reply_content (fst (serve initial_app (\<lambda>i. noon) GET_error_400))) \<and>
   \<not> body_has_metadata (reply_content (fst (serve initial_app (\<lambda>i. noon) (GET_task ''task_999'')))) \<and>
   fst (serve initial_app (\<lambda>i. noon) (PUT_task ''task_001'' [(''title'', JNull)])) =
     Reply 500 (TextBody ''Internal Server Error'') \<and>
   \<not> body_has_metadata (reply_content
       (fst (serve initial_app (\<lambda>i. noon) (PUT_task ''task_001'' [(''title'', JNull)]))))"
proof -
  have ts: "isoformat noon = ''2024-01-15T12:00:00''"
    by code_simp
  have a: "reply_content (fst (serve initial_app (\<lambda>i. noon) GET_error_400)) =
     JSONBody (JObj [(''detail'',
       JObj [(''success'', JBool False), (''error'', JStr ''BAD_REQUEST''),
             (''message'', JStr ''Bad request - invalid parameters''),
             (''timestamp'', JStr ''2024-01-15T12:00:00''), (''version'', JStr ''1.0.0'')])])"
    by (simp add: demonstrate_400_def error_detail_def ts)
  have b: "\<not> body_has_metadata (reply_content (fst (serve initial_app (\<lambda>i. noon) GET_error_400)))"
    unfolding a by simp
  have c: "\<not> body_has_metadata (reply_content (fst (serve initial_app (\<lambda>i. noon) (GET_task ''task_999''))))"
    by (simp add: initial_app_def tasks_db_def get_task_def task_not_found_def)
  have d: "fst (serve initial_app (\<lambda>i. noon) (PUT_task ''task_001'' [(''title'', JNull)])) =
     Reply 500 (TextBody ''Internal Server Error'')"
    by (simp add: initial_app_def tasks_db_def update_task_def Let_def returned_def
        validate_response_def api_response_def internal_server_error_def)
  have e: "\<not> body_has_metadata (reply_content
       (fst (serve initial_app (\<lambda>i. noon) (PUT_task ''task_001'' [(''title'', JNull)]))))"
    unfolding d by simp
  show ?thesis by (intro conjI a b c d e)
qed

text \<open>
  C4, as the code has it. For every request that reaches a handler and every state:
  a reply with a status below 300 has a body with a boolean \<open>success\<close> and non-empty
  \<open>timestamp\<close> and \<open>version\<close> on every route but \<^verbatim>\<open>/response-patterns/direct\<close>,
  whose reply has status 200 and a body with neither \<open>timestamp\<close> nor \<open>version\<close>.
  Every \<^verbatim>\<open>HTTPException\<close> that a handler raises carries \<open>success\<close> false and
  non-empty \<open>timestamp\<close> and \<open>version\<close> in its detail.
\<close>

theorem success_replies_enveloped:
  "(reply_status (fst (serve a clock rq)) < 300 \<longrightarrow>
      body_enveloped (reply_content (fst (serve a clock rq))) = (rq \<noteq> GET_pattern_direct) \<and>
      body_has_metadata (reply_content (fst (serve a clock rq))) = (rq \<noteq> GET_pattern_direct)) \<and>
   reply_status (fst (serve a clock GET_pattern_direct)) = 200 \<and>
   (fst (handle a clock rq) = Raises (HTTPError e) \<longrightarrow>
      dict_get (detail e) ''success'' = Some (JBool False) \<and> has_metadata (JObj (detail e)))"
proof -
  have ok: "body_enveloped (reply_content (fst (serve a clock rq))) = (rq \<noteq> GET_pattern_direct) \<and>
      body_has_metadata (reply_content (fst (serve a clock rq))) = (rq \<noteq> GET_pattern_direct)"
    if st: "reply_status (fst (serve a clock rq)) < 300"
  proof (cases "rq = GET_pattern_direct")
    case True
    with direct_reply [of a clock] show ?thesis by simp
  next
    case False
    from success_reply_enveloped [OF False st]
      body_enveloped_metadata [OF success_reply_enveloped [OF False st]] False
    show ?thesis by simp
  qed
  have direct: "reply_status (fst (serve a clock GET_pattern_direct)) = 200"
    using direct_reply [of a clock] by (elim conjE)
  have err: "dict_get (detail e) ''success'' = Some (JBool False) \<and> has_metadata (JObj (detail e))"
    if "fst (handle a clock rq) = Raises (HTTPError e)"
    using that by (rule raised_detail_enveloped)
  have ok': "reply_status (fst (serve a clock rq)) < 300 \<longrightarrow>
      body_enveloped (reply_content (fst (serve a clock rq))) = (rq \<noteq> GET_pattern_direct) \<and>
      body_has_metadata (reply_content (fst (serve a clock rq))) = (rq \<noteq> GET_pattern_direct)"
    by (rule impI) (rule ok)
  have err': "fst (handle a clock rq) = Raises (HTTPError e) \<longrightarrow>
      dict_get (detail e) ''success'' = Some (JBool False) \<and> has_metadata (JObj (detail e))"
    by (rule impI) (rule err)
  show ?thesis by (intro conjI ok' direct err')
qed

theorem success_replies_enveloped_witness:
  "reply_status (fst (serve initial_app (\<lambda>i. noon) (GET_task ''task_001''))) < 300 \<and>
   body_enveloped (reply_content (fst (serve initial_app (\<lambda>i. noon) (GET_task ''task_001'')))) \<and>
   body_has_metadata (reply_content (fst (serve initial_app (\<lambda>i. noon) (GET_task ''task_001'')))) \<and>
   reply_status (fst (serve initial_app (\<lambda>i. noon) GET_pattern_direct)) < 300 \<and>
   \<not> body_has_metadata (reply_content (fst (serve initial_app (\<lambda>i. noon) GET_pattern_direct))) \<and>
   fst (handle initial_app (\<lambda>i. noon) GET_error_500) =
     Raises (HTTPError \<lparr>status_code = 500,
       detail = error_detail ''INTERNAL_ERROR'' ''Internal server error'' noon\<rparr>) \<and>
   has_metadata (JObj (error_detail ''INTERNAL_ERROR'' ''Internal server error'' noon))"
proof -
  have s1: "reply_status (fst (serve initial_app (\<lambda>i. noon) (GET_task ''task_001''))) < 300"
    by (simp add: initial_app_def tasks_db_def get_task_def returned_def validate_response_def
        api_response_def)
  have s2: "reply_status (fst (serve initial_app (\<lambda>i. noon) GET_pattern_direct)) < 300"
    by simp
  have h: "fst (handle initial_app (\<lambda>i. noon) GET_error_500) =
     Raises (HTTPError \<lparr>status_code = 500,
       detail = error_detail ''INTERNAL_ERROR'' ''Internal server error'' noon\<rparr>)"
    by (simp add: demonstrate_500_def)
  note t1 = success_replies_enveloped [of initial_app "\<lambda>i. noon" "GET_task ''task_001''"]
  note t2 = success_replies_enveloped [of initial_app "\<lambda>i. noon" GET_pattern_direct]
  note t3 = success_replies_enveloped [of initial_app "\<lambda>i. noon" GET_error_500
      "\<lparr>status_code = 500, detail = error_detail ''INTERNAL_ERROR'' ''Internal server error'' noon\<rparr>"]
  have e1: "body_enveloped (reply_content (fst (serve initial_app (\<lambda>i. noon) (GET_task ''task_001''))))"
    and m1: "body_has_metadata (reply_content (fst (serve initial_app (\<lambda>i. noon) (GET_task ''task_001''))))"
    using t1 s1 by simp_all
  have m2: "\<not> body_has_metadata (reply_content (fst (serve initial_app (\<lambda>i. noon) GET_pattern_direct)))"
    using t2 s2 by simp
  have m3: "has_metadata (JObj (error_detail ''INTERNAL_ERROR'' ''Internal server error'' noon))"
    using t3 h by simp
  show ?thesis by (intro conjI s1 e1 m1 s2 m2 h m3)
qed

lemma ids_consistent_get:
  "ids_consistent db \<Longrightarrow> dict_get db t = Some task \<Longrightarrow> dict_get task ''id'' = Some (JStr t)"
  by (induction db) (auto simp: ids_consistent_def split: if_splits)

lemma ids_consistent_set:
  "ids_consistent db \<Longrightarrow> dict_get task ''id'' = Some (JStr k) \<Longrightarrow> ids_consistent (dict_set db k task)"
  by (induction db) (auto simp: ids_consistent_def)

lemma ids_consistent_del: "ids_consistent db \<Longrightarrow> ids_consistent (dict_del db k)"
  by (induction db) (auto simp: ids_consistent_def)

lemma ids_consistent_field:
  "ids_consistent db \<Longrightarrow> dict_contains db t \<Longrightarrow> task_field db t ''id'' = Some (JStr t)"
proof -
  assume inv: "ids_consistent db" and "dict_contains db t"
  from dict_get_present [OF this(2)] obtain task where task: "dict_get db t = Some task" ..
  from ids_consistent_get [OF inv task] task show ?thesis
    by (simp add: task_field_def)
qed

lemma update_task_keeps_id:
  assumes "\<not> dict_contains task_update ''id''"
  shows "task_field (snd (update_task db tid task_update now)) t ''id'' = task_field db t ''id''"
proof (cases "dict_contains db tid")
  case False
  then show ?thesis by (simp add: update_task_def)
next
  case True
  from dict_get_present [OF True] obtain task where task: "dict_get db tid = Some task" ..
  have upd: "snd (update_task db tid task_update now) = dict_set db tid (update_fields task task_update)"
    using True task by (simp add: update_task_def Let_def)
  show ?thesis
    using task by (simp add: upd task_field_def dict_get_set dict_get_update_fields_absent [OF assms])
qed

lemma update_task_consistent:
  assumes "\<not> dict_contains task_update ''id''" and "ids_consistent db"
  shows "ids_consistent (snd (update_task db tid task_update now))"
proof (cases "dict_contains db tid")
  case False
  with assms(2) show ?thesis by (simp add: update_task_def)
next
  case True
  from dict_get_present [OF True] obtain task where task: "dict_get db tid = Some task" ..
  have upd: "snd (update_task db tid task_update now) = dict_set db tid (update_fields task task_update)"
    using True task by (simp add: update_task_def Let_def)
  have "dict_get (update_fields task task_update) ''id'' = Some (JStr tid)"
    using ids_consistent_get [OF assms(2) task]
    by (simp add: dict_get_update_fields_absent [OF assms(1)])
  with assms(2) show ?thesis
    unfolding upd by (rule ids_consistent_set)
qed

lemma create_task_consistent:
  "ids_consistent db \<Longrightarrow> ids_consistent (snd (create_task db task_request now1 now2))"
  by (simp add: create_task_def Let_def ids_consistent_set Task_dict_def)

lemma delete_task_consistent:
  "ids_consistent db \<Longrightarrow> ids_consistent (snd (delete_task db tid now))"
  by (simp add: delete_task_def ids_consistent_del)

lemma serve_consistent:
  assumes "\<not> writes_id rq" and "ids_consistent (app_tasks a)"
  shows "ids_consistent (app_tasks (snd (serve a clock rq)))"
proof (cases rq)
  case (PUT_task tid task_update)
  with assms update_task_consistent [of task_update "app_tasks a" tid "clock 0"]
  show ?thesis by (simp add: case_prod_beta)
next
  case (POST_tasks task_request)
  with assms create_task_consistent [of "app_tasks a" task_request "clock 0" "clock 1"]
  show ?thesis by (simp add: case_prod_beta)
next
  case (DELETE_task tid)
  with assms delete_task_consistent [of "app_tasks a" tid "clock 0"]
  show ?thesis by (simp add: case_prod_beta)
next
  case (GET_task tid)
  with assms show ?thesis by (simp add: case_prod_beta get_task_def split: option.splits)
qed (use assms in \<open>simp_all add: case_prod_beta\<close>)
text \<open>
  C5. The stored \<open>id\<close> field is not immutable under \<open>update_task\<close>: the loop treats
  \<open>id\<close> like any other field of the record. On the seeded store, the payload
  \<^verbatim>\<open>{"id": "task_777"}\<close> sent to \<^verbatim>\<open>task_001\<close> changes the stored \<open>id\<close> field of
  that record from \<^verbatim>\<open>task_001\<close> to \<^verbatim>\<open>task_777\<close>.
\<close>

theorem stored_id_overwritten_by_put:
  "dict_contains tasks_db ''task_001'' \<and>
   task_field tasks_db ''task_001'' ''id'' = Some (JStr ''task_001'') \<and>
   task_field (snd (update_task tasks_db ''task_001'' [(''id'', JStr ''task_777'')] noon)) ''task_001'' ''id''
     = Some (JStr ''task_777'') \<and>
   task_field (snd (update_task tasks_db ''task_001'' [(''id'', JStr ''task_777'')] noon)) ''task_001'' ''id''
     \<noteq> task_field tasks_db ''task_001'' ''id''"
  by (simp add: tasks_db_def update_task_def task_field_def Let_def)

text \<open>
  C5, as the code has it. In any store, a task update whose payload does not name
  \<open>id\<close> leaves the \<open>id\<close> field of every record and the stored IDs unchanged. In a
  store whose records each carry their own key as \<open>id\<close> (the seeded store is one), a
  request that is not a task update naming \<open>id\<close> keeps the store so, and leaves the
  \<open>id\<close> field of every task that is stored before and after it unchanged.
\<close>

theorem stored_id_stable:
  "(\<not> dict_contains task_update ''id'' \<longrightarrow>
      (\<forall>u. task_field (snd (update_task db tid task_update now)) u ''id'' = task_field db u ''id'') \<and>
      dict_keys (snd (update_task db tid task_update now)) = dict_keys db) \<and>
   (\<not> writes_id rq \<and> ids_consistent (app_tasks a) \<longrightarrow>
      ids_consistent (app_tasks (snd (serve a clock rq))) \<and>
      (\<forall>t. dict_contains (app_tasks a) t \<and> dict_contains (app_tasks (snd (serve a clock rq))) t \<longrightarrow>
           task_field (app_tasks (snd (serve a clock rq))) t ''id'' = task_field (app_tasks a) t ''id''))"
proof -
  have put: "(\<forall>u. task_field (snd (update_task db tid task_update now)) u ''id'' = task_field db u ''id'') \<and>
      dict_keys (snd (update_task db tid task_update now)) = dict_keys db"
    if noid: "\<not> dict_contains task_update ''id''"
  proof -
    have keys: "dict_keys (snd (update_task db tid task_update now)) = dict_keys db"
    proof (cases "dict_contains db tid")
      case False
      then show ?thesis by (simp add: update_task_def)
    next
      case True
      from dict_get_present [OF True] obtain task where "dict_get db tid = Some task" ..
      with True show ?thesis
        by (simp add: update_task_def Let_def dict_keys_def keys_dict_set)
    qed
    from update_task_keeps_id [OF noid, of db tid now] keys show ?thesis by simp
  qed
  have inv: "ids_consistent (app_tasks (snd (serve a clock rq))) \<and>
      (\<forall>t. dict_contains (app_tasks a) t \<and> dict_contains (app_tasks (snd (serve a clock rq))) t \<longrightarrow>
           task_field (app_tasks (snd (serve a clock rq))) t ''id'' = task_field (app_tasks a) t ''id'')"
    if h: "\<not> writes_id rq \<and> ids_consistent (app_tasks a)"
  proof -
    from h have w: "\<not> writes_id rq" and c: "ids_consistent (app_tasks a)" by simp_all
    have c': "ids_consistent (app_tasks (snd (serve a clock rq)))"
      using w c by (rule serve_consistent)
    have "task_field (app_tasks (snd (serve a clock rq))) t ''id'' = task_field (app_tasks a) t ''id''"
      if "dict_contains (app_tasks a) t" and "dict_contains (app_tasks (snd (serve a clock rq))) t" for t
      using ids_consistent_field [OF c' that(2)] ids_consistent_field [OF c that(1)] by simp
    with c' show ?thesis by blast
  qed
  have put': "\<not> dict_contains task_update ''id'' \<longrightarrow>
      (\<forall>u. task_field (snd (update_task db tid task_update now)) u ''id'' = task_field db u ''id'') \<and>
      dict_keys (snd (update_task db tid task_update now)) = dict_keys db"
    by (rule impI) (rule put)
  have inv': "\<not> writes_id rq \<and> ids_consistent (app_tasks a) \<longrightarrow>
      ids_consistent (app_tasks (snd (serve a clock rq))) \<and>
      (\<forall>t. dict_contains (app_tasks a) t \<and> dict_contains (app_tasks (snd (serve a clock rq))) t \<longrightarrow>
           task_field (app_tasks (snd (serve a clock rq))) t ''id'' = task_field (app_tasks a) t ''id'')"
    by (rule impI) (rule inv)
  show ?thesis by (intro conjI put' inv')
qed

theorem stored_id_stable_witness:
  "\<not> dict_contains [(''title'', JStr ''Renamed'')] ''id'' \<and>
   task_field (snd (update_task
       (snd (update_task tasks_db ''task_001'' [(''id'', JStr ''task_777'')] noon))
       ''task_001'' [(''title'', JStr ''Renamed'')] noon)) ''task_001'' ''id''
     = Some (JStr ''task_777'') \<and>
   task_field (snd (update_task [] ''task_001'' [(''title'', JStr ''Renamed'')] noon)) ''task_001'' ''id''
     = None \<and>
   \<not> writes_id (DELETE_task ''task_002'') \<and>
   ids_consistent (app_tasks initial_app) \<and>
   dict_contains (app_tasks initial_app) ''task_001'' \<and>
   dict_contains (app_tasks (snd (serve initial_app (\<lambda>i. noon) (DELETE_task ''task_002'')))) ''task_001'' \<and>
   task_field (app_tasks (snd (serve initial_app (\<lambda>i. noon) (DELETE_task ''task_002'')))) ''task_001'' ''id''
     = Some (JStr ''task_001'')"
proof -
  let ?upd = "[(''title'', JStr ''Renamed'')]"
  let ?db = "snd (update_task tasks_db ''task_001'' [(''id'', JStr ''task_777'')] noon)"
  let ?rq = "DELETE_task ''task_002''"
  have h0: "\<not> dict_contains ?upd ''id''" by simp
  have b1: "task_field ?db ''task_001'' ''id'' = Some (JStr ''task_777'')"
    by (simp add: tasks_db_def update_task_def task_field_def Let_def)
  have b2: "task_field [] ''task_001'' ''id'' = None"
    by (simp add: task_field_def)
  have p1: "task_field (snd (update_task ?db ''task_001'' ?upd noon)) ''task_001'' ''id''
      = Some (JStr ''task_777'')"
    using stored_id_stable [of ?upd ?db "''task_001''" noon ?rq initial_app "\<lambda>i. noon"] h0 b1
    by simp
  have p2: "task_field (snd (update_task [] ''task_001'' ?upd noon)) ''task_001'' ''id'' = None"
    using stored_id_stable [of ?upd "[]" "''task_001''" noon ?rq initial_app "\<lambda>i. noon"] h0 b2
    by simp
  have h1: "\<not> writes_id ?rq" by simp
  have h2: "ids_consistent (app_tasks initial_app)"
    by (simp add: initial_app_def tasks_db_def ids_consistent_def)
  have h3: "dict_contains (app_tasks initial_app) ''task_001''"
    by (simp add: initial_app_def tasks_db_def)
  have h4: "dict_contains (app_tasks (snd (serve initial_app (\<lambda>i. noon) ?rq))) ''task_001''"
    by (simp add: initial_app_def tasks_db_def delete_task_def)
  have before: "task_field (app_tasks initial_app) ''task_001'' ''id'' = Some (JStr ''task_001'')"
    by (simp add: initial_app_def tasks_db_def task_field_def)
  have p3: "task_field (app_tasks (snd (serve initial_app (\<lambda>i. noon) ?rq))) ''task_001'' ''id''
      = Some (JStr ''task_001'')"
    using stored_id_stable [of ?upd "[]" "''task_001''" noon ?rq initial_app "\<lambda>i. noon"]
      h1 h2 h3 h4 before
    by simp
  show ?thesis by (intro conjI h0 p1 p2 h1 h2 h3 h4 p3)
qed

text \<open>
  C6. The ID that \<open>create_task\<close> assigns, returns and stores the record under is
  \<^verbatim>\<open>task_\<close> followed by the decimal digits (at least three) of the number of stored
  tasks plus one; with the two seeded tasks the first create yields \<^verbatim>\<open>task_003\<close>.
\<close>
theorem sequential_task_id:
  "response_field (fst (create_task db task_request now1 now2)) ''id'' = Some (JStr (new_task_id db)) \<and>
   task_field (snd (create_task db task_request now1 now2)) (new_task_id db) ''id'' = Some (JStr (new_task_id db)) \<and>
   take 5 (new_task_id db) = ''task_'' \<and>
   dec_val (drop 5 (new_task_id db)) = dict_len db + 1 \<and>
   3 \<le> length (drop 5 (new_task_id db)) \<and>
   list_all is_digit (drop 5 (new_task_id db)) \<and>
   dict_len tasks_db = 2 \<and>
   response_field (fst (create_task tasks_db task_request now1 now2)) ''id'' = Some (JStr ''task_003'')"
proof -
  have a: "response_field (fst (create_task d task_request now1 now2)) ''id'' = Some (JStr (new_task_id d))" for d
    by (simp add: create_task_def Let_def api_response_def Task_dict_def response_field_def)
  have b: "task_field (snd (create_task db task_request now1 now2)) (new_task_id db) ''id'' = Some (JStr (new_task_id db))"
    by (simp add: create_task_def Let_def task_field_def dict_get_set Task_dict_def)
  have len: "dict_len tasks_db = 2" by (simp add: dict_len_def tasks_db_def)
  have "zpad 3 3 = ''003''" by code_simp
  with len have c: "new_task_id tasks_db = ''task_003''" by (simp add: new_task_id_def)
  from a [of db] a [of tasks_db] b c len new_task_id_shape [of db] show ?thesis by simp
qed

theorem sequential_task_id_witness:
  "response_field (fst (create_task tasks_db \<lparr>req_title = ''X'', req_description = ''Y'', req_user_story = None\<rparr> noon noon)) ''id''
     = Some (JStr ''task_003'') \<and>
   dec_val ''003'' = dict_len tasks_db + 1"
proof -
  note t = sequential_task_id [of tasks_db "\<lparr>req_title = ''X'', req_description = ''Y'', req_user_story = None\<rparr>" noon noon]
  have "dec_val ''003'' = 3" by (simp add: dec_val_def digit_val_def)
  moreover have "dict_len tasks_db = 2" using t by blast
  moreover have "response_field (fst (create_task tasks_db \<lparr>req_title = ''X'', req_description = ''Y'', req_user_story = None\<rparr> noon noon)) ''id''
     = Some (JStr ''task_003'')" using t by blast
  ultimately show ?thesis by simp
qed

text \<open>
  C7. For a task ID in the store, \<open>delete_task\<close> succeeds and removes the record, and
  \<open>get_task\<close> with the same ID on the store afterwards gives the NotFound outcome.
\<close>
theorem delete_then_get_not_found:
  assumes "dict_contains db tid"
  shows "succeeded (fst (delete_task db tid now)) \<and>
         \<not> dict_contains (snd (delete_task db tid now)) tid \<and>
         task_not_found_outcome (fst (get_task (snd (delete_task db tid now)) tid now'))"
  using assms
  by (simp add: delete_task_def api_response_def get_task_def dict_contains_del task_not_found_shape)

theorem delete_then_get_not_found_witness:
  "dict_contains tasks_db ''task_001'' \<and>
   succeeded (fst (delete_task tasks_db ''task_001'' noon)) \<and>
   dict_keys (snd (delete_task tasks_db ''task_001'' noon)) = [''task_002''] \<and>
   task_not_found_outcome (fst (get_task (snd (delete_task tasks_db ''task_001'' noon)) ''task_001'' noon))"
proof -
  have present: "dict_contains tasks_db ''task_001''"
    by (simp add: tasks_db_def)
  have keys: "dict_keys (snd (delete_task tasks_db ''task_001'' noon)) = [''task_002'']"
    by (simp add: delete_task_def tasks_db_def dict_keys_def)
  from present keys delete_then_get_not_found [OF present, of noon noon]
  show ?thesis by simp
qed

lemma process_updates_counts:
  "process_updates reqs rnd ok failed errs mt = (ok', failed', errs', mt') \<Longrightarrow>
   ok' + failed' = ok + failed + int (length reqs) \<and>
   failed' = failed + int (length (failed_items reqs rnd)) \<and>
   errs' = errs @ map (\<lambda>q. ''Failed to update '' @ request_task_id q) (failed_items reqs rnd)"
proof (induction reqs arbitrary: rnd ok failed errs mt)
  case Nil
  then show ?case by simp
next
  case (Cons request rest)
  show ?case
  proof (cases "shd rnd < failure_rate")
    case True
    with Cons.prems have "process_updates rest (stl rnd) ok (failed + 1)
        (errs @ [''Failed to update '' @ request_task_id request]) mt = (ok', failed', errs', mt')"
      by simp
    from Cons.IH [OF this] True show ?thesis by simp
  next
    case False
    with Cons.prems have "process_updates rest (stl rnd) (ok + 1) failed errs
        (set_status mt (request_task_id request) (new_status request)) = (ok', failed', errs', mt')"
      by simp
    from Cons.IH [OF this] False show ?thesis by simp
  qed
qed
text \<open>
  C8. For every finite request stream, every generator state and every mock store, the
  response of \<open>BatchUpdateTasks\<close> has \<open>successful_updates + failed_updates\<close> equal
  to the number of requests, \<open>failed_updates\<close> equal to the number of failed items,
  and \<open>error_messages\<close> holding exactly one message per failed item, in order.
\<close>

theorem batch_counts_add_up:
  "successful_updates (fst (BatchUpdateTasks mt request_iterator rnd)) +
     failed_updates (fst (BatchUpdateTasks mt request_iterator rnd)) = int (length request_iterator) \<and>
   failed_updates (fst (BatchUpdateTasks mt request_iterator rnd)) =
     int (length (failed_items request_iterator rnd)) \<and>
   int (length (error_messages (fst (BatchUpdateTasks mt request_iterator rnd)))) =
     failed_updates (fst (BatchUpdateTasks mt request_iterator rnd)) \<and>
   error_messages (fst (BatchUpdateTasks mt request_iterator rnd)) =
     map (\<lambda>q. ''Failed to update '' @ request_task_id q) (failed_items request_iterator rnd)"
proof -
  obtain ok failed errs mt' where run:
    "process_updates request_iterator rnd 0 0 [] mt = (ok, failed, errs, mt')"
    by (cases "process_updates request_iterator rnd 0 0 [] mt") auto
  from process_updates_counts [OF run] show ?thesis
    by (simp add: BatchUpdateTasks_def run)
qed

theorem batch_counts_add_up_witness:
  "fst (BatchUpdateTasks mock_tasks
     [\<lparr>request_task_id = ''task_001'', new_status = ''completed''\<rparr>,
      \<lparr>request_task_id = ''task_002'', new_status = ''in_progress''\<rparr>,
      \<lparr>request_task_id = ''task_009'', new_status = ''pending''\<rparr>]
     (1 / 10 ## 1 / 2 ## sconst (9 / 10)))
   = \<lparr>successful_updates = 2, failed_updates = 1, error_messages = [''Failed to update task_001'']\<rparr> \<and>
   successful_updates (fst (BatchUpdateTasks mock_tasks
     [\<lparr>request_task_id = ''task_001'', new_status = ''completed''\<rparr>,
      \<lparr>request_task_id = ''task_002'', new_status = ''in_progress''\<rparr>,
      \<lparr>request_task_id = ''task_009'', new_status = ''pending''\<rparr>]
     (1 / 10 ## 1 / 2 ## sconst (9 / 10)))) +
   failed_updates (fst (BatchUpdateTasks mock_tasks
     [\<lparr>request_task_id = ''task_001'', new_status = ''completed''\<rparr>,
      \<lparr>request_task_id = ''task_002'', new_status = ''in_progress''\<rparr>,
      \<lparr>request_task_id = ''task_009'', new_status = ''pending''\<rparr>]
     (1 / 10 ## 1 / 2 ## sconst (9 / 10)))) = 3"
proof -
  let ?reqs = "[\<lparr>request_task_id = ''task_001'', new_status = ''completed''\<rparr>,
      \<lparr>request_task_id = ''task_002'', new_status = ''in_progress''\<rparr>,
      \<lparr>request_task_id = ''task_009'', new_status = ''pending''\<rparr>]"
  let ?rnd = "(1 / 10 ## 1 / 2 ## sconst (9 / 10)) :: rat stream"
  have run: "fst (BatchUpdateTasks mock_tasks ?reqs ?rnd)
      = \<lparr>successful_updates = 2, failed_updates = 1, error_messages = [''Failed to update task_001'']\<rparr>"
    by (simp add: BatchUpdateTasks_def failure_rate_def)
  have "successful_updates (fst (BatchUpdateTasks mock_tasks ?reqs ?rnd)) +
        failed_updates (fst (BatchUpdateTasks mock_tasks ?reqs ?rnd)) = 3"
    using batch_counts_add_up [of mock_tasks ?reqs ?rnd] by simp
  with run show ?thesis by (intro conjI)
qed

text \<open>
  C9. \<open>create_user_story\<close> does not depend on the \<open>id\<close> the client sent: the ID in
  the returned data and in the stored record is \<^verbatim>\<open>story_\<close> followed by the digits of
  the number of stored stories plus one. The route answers 201.
\<close>
theorem client_story_id_discarded:
  "create_user_story db (story\<lparr>story_id := client_id\<rparr>) now = create_user_story db story now \<and>
   response_field (fst (create_user_story db story now)) ''id'' = Some (JStr (new_story_id db)) \<and>
   task_field (snd (create_user_story db story now)) (new_story_id db) ''id'' = Some (JStr (new_story_id db)) \<and>
   take 6 (new_story_id db) = ''story_'' \<and>
   dec_val (drop 6 (new_story_id db)) = dict_len db + 1 \<and>
   reply_status (fst (serve a clock (POST_user_stories story))) = 201"
proof -
  have a: "create_user_story db (story\<lparr>story_id := client_id\<rparr>) now = create_user_story db story now"
    by (simp add: create_user_story_def Let_def)
  have b: "response_field (fst (create_user_story db story now)) ''id'' = Some (JStr (new_story_id db))"
    by (simp add: create_user_story_def Let_def api_response_def UserStory_dict_def response_field_def)
  have c: "task_field (snd (create_user_story db story now)) (new_story_id db) ''id'' = Some (JStr (new_story_id db))"
    by (simp add: create_user_story_def Let_def task_field_def dict_get_set UserStory_dict_def)
  have d: "reply_status (fst (serve a clock (POST_user_stories story))) = 201"
    by (simp add: case_prod_beta create_user_story_def Let_def returned_def validate_response_def
        api_response_def validate_UserStory_dict del: validate_UserStory.simps)
  from a b c d new_story_id_shape [of db] show ?thesis by simp
qed

theorem client_story_id_discarded_witness:
  "create_user_story user_stories_db
      \<lparr>story_id = ''mine'', as_a = ''tester'', i_want = ''an id'', so_that = ''it is kept'',
        acceptance_criteria = [], priority = ''medium''\<rparr> noon
   = create_user_story user_stories_db
      \<lparr>story_id = ''other'', as_a = ''tester'', i_want = ''an id'', so_that = ''it is kept'',
        acceptance_criteria = [], priority = ''medium''\<rparr> noon \<and>
   new_story_id user_stories_db = ''story_003''"
proof -
  have len: "dict_len user_stories_db = 2"
    by (simp add: dict_len_def user_stories_db_def)
  have "zpad 3 3 = ''003''" by code_simp
  with len have sid: "new_story_id user_stories_db = ''story_003''"
    by (simp add: new_story_id_def)
  from client_story_id_discarded [where db = user_stories_db and client_id = "''mine''" and now = noon
      and story = "\<lparr>story_id = ''other'', as_a = ''tester'', i_want = ''an id'', so_that = ''it is kept'',
        acceptance_criteria = [], priority = ''medium''\<rparr>"]
  have "create_user_story user_stories_db
      \<lparr>story_id = ''mine'', as_a = ''tester'', i_want = ''an id'', so_that = ''it is kept'',
        acceptance_criteria = [], priority = ''medium''\<rparr> noon
   = create_user_story user_stories_db
      \<lparr>story_id = ''other'', as_a = ''tester'', i_want = ''an id'', so_that = ''it is kept'',
        acceptance_criteria = [], priority = ''medium''\<rparr> noon"
    by simp
  with sid show ?thesis by simp
qed

text \<open>
  C10. For a task ID that is not in the store, the failing \<open>get_task\<close>,
  \<open>update_task\<close> and \<open>delete_task\<close> leave the task store as it was, and the three
  routes leave the whole application state as it was.
\<close>
theorem failing_lookup_leaves_store:
  assumes "\<not> dict_contains (app_tasks a) tid"
  shows "snd (get_task (app_tasks a) tid now) = app_tasks a \<and>
         snd (update_task (app_tasks a) tid task_update now) = app_tasks a \<and>
         snd (delete_task (app_tasks a) tid now) = app_tasks a \<and>
         snd (serve a clock (GET_task tid)) = a \<and>
         snd (serve a clock (PUT_task tid task_update)) = a \<and>
         snd (serve a clock (DELETE_task tid)) = a"
  using assms by (simp add: get_task_def update_task_def delete_task_def)

theorem failing_lookup_leaves_store_witness:
  "\<not> dict_contains (app_tasks initial_app) ''task_999'' \<and>
   snd (serve initial_app (\<lambda>i. noon) (GET_task ''task_999'')) = initial_app \<and>
   snd (serve initial_app (\<lambda>i. noon) (PUT_task ''task_999'' [(''title'', JStr ''x'')])) = initial_app \<and>
   snd (serve initial_app (\<lambda>i. noon) (DELETE_task ''task_999'')) = initial_app \<and>
   app_tasks (snd (serve initial_app (\<lambda>i. noon) (DELETE_task ''task_999''))) = tasks_db"
proof -
  have absent: "\<not> dict_contains (app_tasks initial_app) ''task_999''"
    by (simp add: initial_app_def tasks_db_def)
  from absent failing_lookup_leaves_store [OF absent, of noon "[(''title'', JStr ''x'')]" "\<lambda>i. noon"]
  show ?thesis by (simp add: initial_app_def)
qed

end
